theory Spec2Isabelle
  imports Complex_Main "HOL-Library.AList" "HOL-Library.List_Lexorder" "HOL-Library.Char_ord"
begin

section \<open>Python values used by app.py\<close>

text \<open>
  A Python \<open>str\<close> is modelled as a \<open>string\<close> whose characters are code points below 256;
  \<open>sorted\<close> on strings compares code points lexicographically, which is the order that
  \<open>List_Lexorder\<close> and \<open>Char_ord\<close> give to \<open>char list\<close>. Python's \<open>int\<close> is \<open>int\<close>. A Python
  \<open>float\<close> is modelled by the rational number it denotes.
\<close>

datatype py_error = ZeroDivisionError | ValueError | OverflowError

subsection \<open>Integers bound as SQL parameters\<close>

text \<open>
  An id in a URL (\<open><int:sid>\<close>) is a natural number of any size. When it is bound as the
  parameter of a query, the driver of the database accepts what fits a signed 64-bit
  integer and raises OverflowError for anything from \<open>2 ^ 63\<close> on.
\<close>

definition bind_id :: "nat \<Rightarrow> py_error + nat" where
  "bind_id i = (if i < 2 ^ 63 then Inr i else Inl OverflowError)"

subsection \<open>Strings: strip and lower\<close>

text \<open>
  The code points below 256 that \<open>str.strip()\<close> removes: tab to carriage return, the four
  separators 28 to 31, space, next line (133) and no-break space (160).
\<close>

definition is_space :: "char \<Rightarrow> bool" where
  "is_space c = (of_char c \<in> {9, 10, 11, 12, 13, 28, 29, 30, 31, 32, 133, 160 :: nat})"

definition strip :: "string \<Rightarrow> string" where
  "strip s = rev (dropWhile is_space (rev (dropWhile is_space s)))"

text \<open>
  \<open>str.lower()\<close> on code points below 256: the letters A to Z and the capital letters
  192 to 222 (apart from the multiplication sign 215) move up by 32.
\<close>

definition lower_char :: "char \<Rightarrow> char" where
  "lower_char c =
     (let k = (of_char c :: nat)
      in if (65 \<le> k \<and> k \<le> 90) \<or> (192 \<le> k \<and> k \<le> 222 \<and> k \<noteq> 215)
         then char_of (k + 32) else c)"

definition lower :: "string \<Rightarrow> string" where
  "lower s = map lower_char s"

subsection \<open>Floats: true division and round(x, 2)\<close>

text \<open>\<open>int.bit_length\<close> on a natural number.\<close>

fun bit_length :: "nat \<Rightarrow> nat" where
  "bit_length n = (if n = 0 then 0 else Suc (bit_length (n div 2)))"

definition round_half_even :: "rat \<Rightarrow> int" where
  "round_half_even q =
     (let f = \<lfloor>q\<rfloor>; d = q - of_int f
      in if d < 1 / 2 then f else if 1 / 2 < d then f + 1 else if even f then f else f + 1)"

text \<open>
  The exponent \<open>e\<close> of the binade of a non-zero rational: \<open>2 ^ e \<le> \<bar>q\<bar> < 2 ^ (e + 1)\<close>.
\<close>

definition floor_log2 :: "rat \<Rightarrow> int" where
  "floor_log2 q =
     (let (a, b) = quotient_of \<bar>q\<bar>;
          l = int (bit_length (nat a)) - int (bit_length (nat b))
      in if 2 powi l \<le> \<bar>q\<bar> then l else l - 1)"

text \<open>
  The IEEE 754 double nearest to a rational (53 significant bits, ties to even). Overflow
  and subnormals are left out: every quotient below is a sum of stored column values
  divided by the number of summands, and the database stores 64-bit integers, so a
  non-zero quotient has magnitude between \<open>1 / n\<close> and \<open>2 ^ 63\<close>.
\<close>

definition fl :: "rat \<Rightarrow> rat" where
  "fl q =
     (if q = 0 then 0
      else let e = floor_log2 q - 52
           in of_int (round_half_even (q / 2 powi e)) * 2 powi e)"

text \<open>\<open>a / b\<close> on two Python ints: the correctly rounded quotient, or ZeroDivisionError.\<close>

definition py_truediv :: "int \<Rightarrow> int \<Rightarrow> py_error + rat" where
  "py_truediv a b = (if b = 0 then Inl ZeroDivisionError else Inr (fl (of_int a / of_int b)))"

text \<open>
  \<open>round(x, 2)\<close> on a float: the exact value of \<open>x\<close> is rounded to two decimal places,
  ties to even, and the decimal result is converted back to the nearest double.
\<close>

definition py_round2 :: "rat \<Rightarrow> rat" where
  "py_round2 x = fl (of_int (round_half_even (x * 100)) / 100)"

subsection \<open>Dates and strftime\<close>

text \<open>
  \<open>datetime.date\<close>: the constructor admits years 1 to 9999 only, months 1 to 12 and
  days 1 to 31.
\<close>

record date =
  year :: nat
  month :: nat
  day :: nat

definition digit_char :: "nat \<Rightarrow> char" where
  "digit_char d = char_of (48 + d mod 10)"

text \<open>
  The \<open>w\<close> low decimal digits of \<open>n\<close>, zero padded: what \<open>%m\<close> and \<open>%d\<close> print (\<open>w = 2\<close>) for
  the month and the day of a date.
\<close>

fun zero_pad :: "nat \<Rightarrow> nat \<Rightarrow> string" where
  "zero_pad 0 n = []"
| "zero_pad (Suc w) n = zero_pad w (n div 10) @ [digit_char n]"

text \<open>
  A natural number in decimal, with no padding: what \<open>%Y\<close> prints for the year on the
  platform of the program (CPython 3.11 on Linux hands \<open>%Y\<close> to the C library, which
  does not pad), four digits for the years from 1000 on and fewer for earlier years.
\<close>

fun decimal :: "nat \<Rightarrow> string" where
  "decimal n = (if n < 10 then [digit_char n] else decimal (n div 10) @ [digit_char n])"

definition strftime_Y :: "date \<Rightarrow> string" where
  "strftime_Y d = decimal (year d)"

definition strftime_Ym :: "date \<Rightarrow> string" where
  "strftime_Ym d = decimal (year d) @ ''-'' @ zero_pad 2 (month d)"

definition strftime_Ymd :: "date \<Rightarrow> string" where
  "strftime_Ymd d =
     decimal (year d) @ ''-'' @ zero_pad 2 (month d) @ ''-'' @ zero_pad 2 (day d)"

section \<open>Aggregation of behavior logs (app.py, lines 312 to 337)\<close>

record behavior_log =
  bl_id :: nat
  student_id :: nat
  log_date :: date
  mood :: int
  focus :: int
  social :: int
  bl_notes :: string

record bucket =
  b_mood :: int
  b_focus :: int
  b_social :: int
  b_n :: int

record chart =
  labels :: "string list"
  c_mood :: "rat list"
  c_focus :: "rat list"
  c_social :: "rat list"

text \<open>
  The \<open>defaultdict\<close> of buckets is an association list in insertion order, as a Python
  dict is; \<open>AList.update\<close> overwrites the value of a present key in place and appends an
  absent key.
\<close>

type_synonym buckets = "(string \<times> bucket) list"

text \<open>The \<open>if\<close>/\<open>elif\<close>/\<open>else\<close> of lines 316 to 321.\<close>

definition bucket_key :: "string \<Rightarrow> date \<Rightarrow> string" where
  "bucket_key period d =
     (if period = ''daily'' then strftime_Ymd d
      else if period = ''monthly'' then strftime_Ym d
      else strftime_Y d)"

text \<open>\<open>buckets[key]\<close>: the default factory supplies the zero bucket for a missing key.\<close>

definition getitem :: "buckets \<Rightarrow> string \<Rightarrow> bucket" where
  "getitem bs k =
     (case map_of bs k of
        None \<Rightarrow> \<lparr>b_mood = 0, b_focus = 0, b_social = 0, b_n = 0\<rparr>
      | Some b \<Rightarrow> b)"

text \<open>The body of the loop, lines 316 to 325, for one row.\<close>

definition accumulate :: "string \<Rightarrow> buckets \<Rightarrow> behavior_log \<Rightarrow> buckets" where
  "accumulate period bs row =
     (let key = bucket_key period (log_date row); b = getitem bs key
      in AList.update key
           \<lparr>b_mood = b_mood b + mood row, b_focus = b_focus b + focus row,
            b_social = b_social b + social row, b_n = b_n b + 1\<rparr> bs)"

text \<open>
  \<open>BehaviorLog.query.filter_by(student_id=sid)\<close>, run when the loop of line 315 starts:
  the rows of the table with that student id, in table order, once \<open>sid\<close> has been bound.
\<close>

definition query_logs :: "behavior_log list \<Rightarrow> nat \<Rightarrow> py_error + behavior_log list" where
  "query_logs tbl sid =
     (case bind_id sid of
        Inl e \<Rightarrow> Inl e
      | Inr i \<Rightarrow> Inr (filter (\<lambda>row. student_id row = i) tbl))"

text \<open>The loop of lines 315 to 325 over the rows of the query.\<close>

definition fill_buckets :: "string \<Rightarrow> behavior_log list \<Rightarrow> buckets" where
  "fill_buckets period rows = foldl (accumulate period) [] rows"

text \<open>A list comprehension whose element expression may raise: the first error wins.\<close>

fun comprehension :: "('a \<Rightarrow> py_error + 'b) \<Rightarrow> 'a list \<Rightarrow> py_error + 'b list" where
  "comprehension f [] = Inr []"
| "comprehension f (x # xs) =
     (case f x of
        Inl e \<Rightarrow> Inl e
      | Inr y \<Rightarrow> (case comprehension f xs of Inl e \<Rightarrow> Inl e | Inr ys \<Rightarrow> Inr (y # ys)))"

text \<open>\<open>round(buckets[k][field] / buckets[k]["n"], 2)\<close>.\<close>

definition average :: "(bucket \<Rightarrow> int) \<Rightarrow> buckets \<Rightarrow> string \<Rightarrow> py_error + rat" where
  "average field bs k =
     (case py_truediv (field (getitem bs k)) (b_n (getitem bs k)) of
        Inl e \<Rightarrow> Inl e
      | Inr x \<Rightarrow> Inr (py_round2 x))"

text \<open>What \<open>average\<close> computes for a bucket that holds the scores \<open>xs\<close>, at least one.\<close>

definition round_mean :: "int list \<Rightarrow> rat" where
  "round_mean xs = py_round2 (fl (of_int (sum_list xs) / of_int (int (length xs))))"

definition aggregate_behavior :: "behavior_log list \<Rightarrow> nat \<Rightarrow> string \<Rightarrow> py_error + chart" where
  "aggregate_behavior tbl sid period =
     (case query_logs tbl sid of
        Inl e \<Rightarrow> Inl e
      | Inr rows \<Rightarrow>
          let bs = fill_buckets period rows;
              ls = sort (map fst bs)
          in case comprehension (average b_mood bs) ls of
               Inl e \<Rightarrow> Inl e
             | Inr ms \<Rightarrow>
                 (case comprehension (average b_focus bs) ls of
                    Inl e \<Rightarrow> Inl e
                  | Inr fs \<Rightarrow>
                      (case comprehension (average b_social bs) ls of
                         Inl e \<Rightarrow> Inl e
                       | Inr ss \<Rightarrow>
                           Inr \<lparr>labels = ls, c_mood = ms, c_focus = fs, c_social = ss\<rparr>)))"

text \<open>
  \<open>api_behavior\<close>: the period is the query argument \<open>period\<close>, \<open>daily\<close> when absent; the
  chart is returned as JSON.
\<close>

definition api_behavior :: "behavior_log list \<Rightarrow> (string \<rightharpoonup> string) \<Rightarrow> nat \<Rightarrow> py_error + chart" where
  "api_behavior tbl args sid =
     aggregate_behavior tbl sid (case args ''period'' of None \<Rightarrow> ''daily'' | Some p \<Rightarrow> p)"

section \<open>Tables, the request and the database session\<close>

record user =
  u_id :: nat
  u_name :: string
  u_email :: string
  password_hash :: string
  role :: string

record student =
  s_id :: nat
  full_name :: string
  age :: int
  gender :: string
  s_notes :: string
  s_created_by :: "nat option"

record activity =
  a_id :: nat
  title :: string
  description :: string
  category :: string
  age_min :: int
  age_max :: int
  a_created_by :: "nat option"

record activity_log =
  al_id :: nat
  al_student_id :: nat
  activity_id :: nat
  done_at :: date
  remark :: string

record database =
  users :: "user list"
  students :: "student list"
  activities :: "activity list"
  behavior_logs :: "behavior_log list"
  activity_logs :: "activity_log list"

text \<open>
  The literals passed to \<open>flash\<close>, one constructor for each (the source texts are Thai):
  line 103, line 106, line 112, line 125, lines 167 and 186 (the same literal), line 172,
  line 189, line 199, line 231, line 243 and line 258.
\<close>

datatype message =
  Msg_fill_all_fields
| Msg_email_in_use
| Msg_registered
| Msg_invalid_credentials
| Msg_name_and_age_6_12
| Msg_student_saved
| Msg_student_edited
| Msg_student_deleted
| Msg_activity_title
| Msg_activity_added
| Msg_activity_edited

text \<open>
  What a view returns: \<open>redirect(url_for(endpoint, sid=...))\<close>, \<open>render_template\<close> (the
  template's name; its context is not modelled), the 404 of \<open>get_or_404\<close>, or \<open>jsonify\<close>.
\<close>

datatype response =
  Redirect string "nat option"
| Render string
| Abort404
| Jsonify chart

record request =
  http_method :: string
  form :: "string \<rightharpoonup> string"
  args :: "string \<rightharpoonup> string"

text \<open>
  What lasts from one request to the next: the committed database, the flashed messages
  (message and category) and the user id held by the login session.
\<close>

record app =
  db :: database
  flashes :: "(message \<times> string) list"
  logged_in :: "nat option"

text \<open>
  \<open>db.session\<close> is a unit of work that lives for one request: objects added, modified or
  deleted are pending until \<open>commit\<close> writes them; when the request ends Flask-SQLAlchemy
  removes the session and what is still pending is dropped.
\<close>

datatype pending =
  Add_user user
| Add_student student
| Dirty_student student
| Delete_student nat
| Add_activity activity
| Dirty_activity activity

record orm_session =
  store :: database
  pending :: "pending list"

definition new_session :: "database \<Rightarrow> orm_session" where
  "new_session d = \<lparr>store = d, pending = []\<rparr>"

definition session_add :: "pending \<Rightarrow> orm_session \<Rightarrow> orm_session" where
  "session_add p ss = ss\<lparr>pending := pending ss @ [p]\<rparr>"

text \<open>The integer primary key of a new row: one more than the largest in the table.\<close>

definition next_id :: "nat list \<Rightarrow> nat" where
  "next_id ids = Suc (fold max ids 0)"

fun flush_one :: "pending \<Rightarrow> database \<Rightarrow> database" where
  "flush_one (Add_user u) d = d\<lparr>users := users d @ [u\<lparr>u_id := next_id (map u_id (users d))\<rparr>]\<rparr>"
| "flush_one (Add_student s) d =
     d\<lparr>students := students d @ [s\<lparr>s_id := next_id (map s_id (students d))\<rparr>]\<rparr>"
| "flush_one (Dirty_student s) d =
     d\<lparr>students := map (\<lambda>r. if s_id r = s_id s then s else r) (students d)\<rparr>"
| "flush_one (Delete_student i) d = d\<lparr>students := filter (\<lambda>r. s_id r \<noteq> i) (students d)\<rparr>"
| "flush_one (Add_activity a) d =
     d\<lparr>activities := activities d @ [a\<lparr>a_id := next_id (map a_id (activities d))\<rparr>]\<rparr>"
| "flush_one (Dirty_activity a) d =
     d\<lparr>activities := map (\<lambda>r. if a_id r = a_id a then a else r) (activities d)\<rparr>"

definition session_commit :: "orm_session \<Rightarrow> orm_session" where
  "session_commit ss = \<lparr>store = fold flush_one (pending ss) (store ss), pending = []\<rparr>"

text \<open>The end of the request: the committed database is what remains.\<close>

definition session_remove :: "orm_session \<Rightarrow> database" where
  "session_remove ss = store ss"

definition flash :: "message \<Rightarrow> string \<Rightarrow> app \<Rightarrow> app" where
  "flash m c st = st\<lparr>flashes := flashes st @ [(m, c)]\<rparr>"

text \<open>\<open>request.form.get(k, dflt)\<close>.\<close>

definition form_get :: "request \<Rightarrow> string \<Rightarrow> string \<Rightarrow> string" where
  "form_get rq k dflt = (case form rq k of None \<Rightarrow> dflt | Some v \<Rightarrow> v)"

text \<open>
  \<open>int(request.form.get(k, dflt) or n)\<close>: the empty string is falsy, so \<open>n\<close> itself is
  converted; any other string goes to \<open>int\<close>. The builtin \<open>int\<close> on a \<open>str\<close> is the parameter
  \<open>py_int\<close>, \<open>None\<close> where it raises ValueError.
\<close>

definition form_int ::
  "(string \<Rightarrow> int option) \<Rightarrow> request \<Rightarrow> string \<Rightarrow> string \<Rightarrow> int \<Rightarrow> int option" where
  "form_int py_int rq k dflt n =
     (let v = form_get rq k dflt in if v = [] then Some n else py_int v)"

text \<open>
  \<open>Model.query.get_or_404(i)\<close> on a table with key \<open>key\<close>: the id is bound as the
  parameter of the lookup, which may raise; \<open>Inr None\<close> is the 404.
\<close>

definition get_or_404 :: "('r \<Rightarrow> nat) \<Rightarrow> 'r list \<Rightarrow> nat \<Rightarrow> py_error + 'r option" where
  "get_or_404 key rows i =
     (case bind_id i of
        Inl e \<Rightarrow> Inl e
      | Inr j \<Rightarrow> Inr (find (\<lambda>r. key r = j) rows))"

section \<open>Views\<close>

text \<open>
  Each view below is the body that runs once \<open>login_required\<close> (where the source has it)
  has let the request through; \<open>current_user.id\<close> is the parameter \<open>uid\<close>.
  \<open>generate_password_hash\<close> and \<open>check_password_hash\<close> of werkzeug are parameters.
\<close>

subsection \<open>register and login (lines 96 to 126)\<close>


definition login :: "(string \<Rightarrow> string \<Rightarrow> bool) \<Rightarrow> request \<Rightarrow> app \<Rightarrow> response \<times> app" where
  "login check_password_hash rq st =
     (if http_method rq = ''POST'' then
        let email = lower (strip (form_get rq ''email'' ''''));
            password = form_get rq ''password'' '''';
            u = find (\<lambda>u. u_email u = email) (users (db st))
        in if (case u of None \<Rightarrow> False
               | Some usr \<Rightarrow> check_password_hash (password_hash usr) password) then
             (Redirect ''dashboard'' None, st\<lparr>logged_in := map_option u_id u\<rparr>)
           else (Render ''login.html'', flash Msg_invalid_credentials ''danger'' st)
      else (Render ''login.html'', st))"

subsection \<open>Students (lines 158 to 211)\<close>

definition student_new ::
  "(string \<Rightarrow> int option) \<Rightarrow> nat \<Rightarrow> request \<Rightarrow> app \<Rightarrow> (py_error + response) \<times> app" where
  "student_new py_int uid rq st =
     (if http_method rq = ''POST'' then
        let full_name' = strip (form_get rq ''full_name'' '''')
        in case form_int py_int rq ''age'' ''0'' 0 of
             None \<Rightarrow> (Inl ValueError, st)
           | Some age' \<Rightarrow>
               let gender' = form_get rq ''gender'' '''';
                   notes' = form_get rq ''notes'' ''''
               in if full_name' = [] \<or> age' < 6 \<or> age' > 12 then
                    (Inr (Redirect ''student_new'' None),
                     flash Msg_name_and_age_6_12 ''danger'' st)
                  else
                    let s = \<lparr>s_id = 0, full_name = full_name', age = age', gender = gender',
                             s_notes = notes', s_created_by = Some uid\<rparr>;
                        ss = session_commit (session_add (Add_student s) (new_session (db st)))
                    in (Inr (Redirect ''students'' None),
                        flash Msg_student_saved ''success'' (st\<lparr>db := session_remove ss\<rparr>))
      else (Inr (Render ''student_form.html''), st))"

text \<open>
  \<open>student_edit\<close> assigns the four attributes of the loaded row before it validates
  (lines 181 to 185): the row is dirty in the session from the first assignment on, and
  only line 188 commits.
\<close>

definition student_edit ::
  "(string \<Rightarrow> int option) \<Rightarrow> request \<Rightarrow> nat \<Rightarrow> app \<Rightarrow> (py_error + response) \<times> app" where
  "student_edit py_int rq sid st =
     (let ss = new_session (db st)
      in case get_or_404 s_id (students (store ss)) sid of
           Inl e \<Rightarrow> (Inl e, st)
         | Inr None \<Rightarrow> (Inr Abort404, st)
         | Inr (Some s) \<Rightarrow>
             if http_method rq = ''POST'' then
               let s1 = s\<lparr>full_name := strip (form_get rq ''full_name'' '''')\<rparr>
               in case form_int py_int rq ''age'' ''0'' 0 of
                    None \<Rightarrow>
                      (Inl ValueError,
                       st\<lparr>db := session_remove (session_add (Dirty_student s1) ss)\<rparr>)
                  | Some age' \<Rightarrow>
                      let s2 = s1\<lparr>age := age', gender := form_get rq ''gender'' '''',
                                  s_notes := form_get rq ''notes'' ''''\<rparr>;
                          ss2 = session_add (Dirty_student s2) ss
                      in if full_name s2 = [] \<or> age s2 < 6 \<or> age s2 > 12 then
                           (Inr (Redirect ''student_edit'' (Some sid)),
                            flash Msg_name_and_age_6_12 ''danger''
                              (st\<lparr>db := session_remove ss2\<rparr>))
                         else
                           (Inr (Redirect ''students'' None),
                            flash Msg_student_edited ''success''
                              (st\<lparr>db := session_remove (session_commit ss2)\<rparr>))
             else (Inr (Render ''student_form.html''), st))"

definition student_delete :: "nat \<Rightarrow> app \<Rightarrow> (py_error + response) \<times> app" where
  "student_delete sid st =
     (let ss = new_session (db st)
      in case get_or_404 s_id (students (store ss)) sid of
           Inl e \<Rightarrow> (Inl e, st)
         | Inr None \<Rightarrow> (Inr Abort404, st)
         | Inr (Some s) \<Rightarrow>
             let ss' = session_commit (session_add (Delete_student (s_id s)) ss)
             in (Inr (Redirect ''students'' None),
                 flash Msg_student_deleted ''info'' (st\<lparr>db := session_remove ss'\<rparr>)))"

text \<open>
  \<open>student_detail\<close> reads only: the error or the 404 of its first line, or the page
  (whose lists of logs and recommended activities belong to the template context).
\<close>

definition student_detail :: "nat \<Rightarrow> app \<Rightarrow> (py_error + response) \<times> app" where
  "student_detail sid st =
     (case get_or_404 s_id (students (db st)) sid of
        Inl e \<Rightarrow> (Inl e, st)
      | Inr None \<Rightarrow> (Inr Abort404, st)
      | Inr (Some s) \<Rightarrow> (Inr (Render ''student_detail.html''), st))"

subsection \<open>Activities (lines 225 to 260)\<close>

definition activity_new ::
  "(string \<Rightarrow> int option) \<Rightarrow> nat \<Rightarrow> request \<Rightarrow> app \<Rightarrow> (py_error + response) \<times> app" where
  "activity_new py_int uid rq st =
     (if http_method rq = ''POST'' then
        let title' = strip (form_get rq ''title'' '''')
        in if title' = [] then
             (Inr (Redirect ''activity_new'' None), flash Msg_activity_title ''danger'' st)
           else
             case form_int py_int rq ''age_min'' ''6'' 6 of
               None \<Rightarrow> (Inl ValueError, st)
             | Some lo \<Rightarrow>
                 (case form_int py_int rq ''age_max'' ''12'' 12 of
                    None \<Rightarrow> (Inl ValueError, st)
                  | Some hi \<Rightarrow>
                      let item = \<lparr>a_id = 0, title = title',
                                  description = form_get rq ''description'' '''',
                                  category = form_get rq ''category'' '''',
                                  age_min = lo, age_max = hi, a_created_by = Some uid\<rparr>;
                          ss = session_commit
                                 (session_add (Add_activity item) (new_session (db st)))
                      in (Inr (Redirect ''activities'' None),
                          flash Msg_activity_added ''success''
                            (st\<lparr>db := session_remove ss\<rparr>)))
      else (Inr (Render ''activity_form.html''), st))"

definition activity_edit ::
  "(string \<Rightarrow> int option) \<Rightarrow> request \<Rightarrow> nat \<Rightarrow> app \<Rightarrow> (py_error + response) \<times> app" where
  "activity_edit py_int rq aid st =
     (let ss = new_session (db st)
      in case get_or_404 a_id (activities (store ss)) aid of
           Inl e \<Rightarrow> (Inl e, st)
         | Inr None \<Rightarrow> (Inr Abort404, st)
         | Inr (Some item) \<Rightarrow>
             if http_method rq = ''POST'' then
               let item1 = item\<lparr>title := strip (form_get rq ''title'' ''''),
                                description := form_get rq ''description'' '''',
                                category := form_get rq ''category'' ''''\<rparr>
               in case form_int py_int rq ''age_min'' ''6'' 6 of
                    None \<Rightarrow>
                      (Inl ValueError,
                       st\<lparr>db := session_remove (session_add (Dirty_activity item1) ss)\<rparr>)
                  | Some lo \<Rightarrow>
                      (case form_int py_int rq ''age_max'' ''12'' 12 of
                         None \<Rightarrow>
                           (Inl ValueError,
                            st\<lparr>db := session_remove
                                        (session_add
                                           (Dirty_activity (item1\<lparr>age_min := lo\<rparr>)) ss)\<rparr>)
                       | Some hi \<Rightarrow>
                           let item2 = item1\<lparr>age_min := lo, age_max := hi\<rparr>;
                               ss2 = session_commit (session_add (Dirty_activity item2) ss)
                           in (Inr (Redirect ''activities'' None),
                               flash Msg_activity_edited ''success''
                                 (st\<lparr>db := session_remove ss2\<rparr>)))
             else (Inr (Render ''activity_form.html''), st))"

section \<open>What the specification says, in its own words\<close>

text \<open>The rows of one student that fall into the bucket with key \<open>k\<close>.\<close>

definition rows_in_bucket :: "string \<Rightarrow> behavior_log list \<Rightarrow> string \<Rightarrow> behavior_log list" where
  "rows_in_bucket period rows k = filter (\<lambda>row. bucket_key period (log_date row) = k) rows"

text \<open>The bucket keys of the rows, each once, sorted lexicographically.\<close>

definition bucket_keys :: "string \<Rightarrow> behavior_log list \<Rightarrow> string list" where
  "bucket_keys period rows =
     sort (remdups (map (\<lambda>row. bucket_key period (log_date row)) rows))"

text \<open>The arithmetic mean of a list of scores, as an exact rational number.\<close>

definition exact_mean :: "int list \<Rightarrow> rat" where
  "exact_mean xs = of_int (sum_list xs) / of_int (int (length xs))"

text \<open>
  \<open>x\<close> is \<open>q\<close> up to the rounding of a double: the relative error is at most \<open>2 ^ -53\<close>.
\<close>

definition approx_double :: "rat \<Rightarrow> rat \<Rightarrow> bool" where
  "approx_double q x = (\<bar>x - q\<bar> \<le> \<bar>q\<bar> / 2 ^ 53)"

text \<open>
  \<open>r\<close> is \<open>q\<close> held as a float and rounded to two decimal places: some float \<open>x\<close> for \<open>q\<close> has a
  multiple \<open>k / 100\<close> of one hundredth within half a hundredth, and \<open>r\<close> is a float for
  that multiple.
\<close>

definition rounded_to_2_places :: "rat \<Rightarrow> rat \<Rightarrow> bool" where
  "rounded_to_2_places q r =
     (\<exists>x k. approx_double q x \<and> \<bar>of_int k / 100 - x\<bar> \<le> 1 / 200
            \<and> approx_double (of_int k / 100) r)"

text \<open>The rows of one student in the table.\<close>

definition logs_of_student :: "behavior_log list \<Rightarrow> nat \<Rightarrow> behavior_log list" where
  "logs_of_student tbl sid = filter (\<lambda>row. student_id row = sid) tbl"

text \<open>The sums and the count of a bucket, and the sum of two buckets field by field.\<close>

definition totals :: "string \<Rightarrow> behavior_log list \<Rightarrow> string \<Rightarrow> bucket" where
  "totals period rows k =
     \<lparr>b_mood = sum_list (map mood (rows_in_bucket period rows k)),
      b_focus = sum_list (map focus (rows_in_bucket period rows k)),
      b_social = sum_list (map social (rows_in_bucket period rows k)),
      b_n = int (length (rows_in_bucket period rows k))\<rparr>"

definition add_bucket :: "bucket \<Rightarrow> bucket \<Rightarrow> bucket" where
  "add_bucket a b =
     \<lparr>b_mood = b_mood a + b_mood b, b_focus = b_focus a + b_focus b,
      b_social = b_social a + b_social b, b_n = b_n a + b_n b\<rparr>"

text \<open>The ranges that the constructor of \<open>datetime.date\<close> enforces on every date.\<close>

definition valid_date :: "date \<Rightarrow> bool" where
  "valid_date d =
     (1 \<le> year d \<and> year d \<le> 9999 \<and> 1 \<le> month d \<and> month d \<le> 12 \<and> 1 \<le> day d \<and> day d \<le> 31)"

text \<open>The number that a string of decimal digits denotes.\<close>

definition digits_value :: "string \<Rightarrow> nat" where
  "digits_value s = foldl (\<lambda>a c. 10 * a + (of_char c - 48)) 0 s"

definition is_digit :: "char \<Rightarrow> bool" where
  "is_digit c = (48 \<le> (of_char c :: nat) \<and> (of_char c :: nat) \<le> 57)"

text \<open>A submitted text field is blank when stripping leaves nothing.\<close>

definition blank :: "string \<Rightarrow> bool" where
  "blank s = (strip s = [])"



section \<open>Concrete data for the examples\<close>

text \<open>
  An instance of the parameter \<open>py_int\<close> that agrees with \<open>int\<close> on the strings the
  examples submit as numbers: a non-empty string of ASCII digits converts to its value,
  and \<open>abc\<close> does not convert.
\<close>

definition int_of_digits :: "string \<Rightarrow> int option" where
  "int_of_digits s = (if s \<noteq> [] \<and> list_all is_digit s then Some (int (digits_value s)) else None)"

definition post :: "(string \<times> string) list \<Rightarrow> request" where
  "post kvs = \<lparr>http_method = ''POST'', form = map_of kvs, args = map_of []\<rparr>"

definition jan1 :: date where
  "jan1 = \<lparr>year = 2024, month = 1, day = 1\<rparr>"

definition feb15 :: date where
  "feb15 = \<lparr>year = 2024, month = 2, day = 15\<rparr>"

definition ex_logs :: "behavior_log list" where
  "ex_logs =
     [\<lparr>bl_id = 1, student_id = 7, log_date = jan1, mood = 4, focus = 3, social = 5, bl_notes = []\<rparr>,
      \<lparr>bl_id = 2, student_id = 9, log_date = feb15, mood = 5, focus = 5, social = 5, bl_notes = []\<rparr>,
      \<lparr>bl_id = 3, student_id = 7, log_date = jan1, mood = 2, focus = 4, social = 5, bl_notes = []\<rparr>,
      \<lparr>bl_id = 4, student_id = 7, log_date = feb15, mood = 1, focus = 1, social = 2, bl_notes = []\<rparr>]"

text \<open>
  Forty logs of one day with 27 moods of 3 and 13 moods of 2 (mean 2.675), and one log
  dated 0999-01-01, which line 278 admits.
\<close>

definition score_row :: "date \<Rightarrow> int \<Rightarrow> behavior_log" where
  "score_row d m =
     \<lparr>bl_id = 0, student_id = 7, log_date = d, mood = m, focus = 3, social = 3, bl_notes = []\<rparr>"

definition tie_logs :: "behavior_log list" where
  "tie_logs = replicate 27 (score_row jan1 3) @ replicate 13 (score_row jan1 2)"

definition year999 :: date where
  "year999 = \<lparr>year = 999, month = 1, day = 1\<rparr>"


definition ann :: student where
  "ann = \<lparr>s_id = 7, full_name = ''Ann'', age = 8, gender = ''F'', s_notes = ''shy'',
          s_created_by = Some 1\<rparr>"

definition blocks :: activity where
  "blocks = \<lparr>a_id = 1, title = ''Blocks'', description = ''logic'', category = ''STEM'',
             age_min = 6, age_max = 9, a_created_by = None\<rparr>"

definition admin :: user where
  "admin = \<lparr>u_id = 1, u_name = ''Admin'', u_email = ''admin@kidanta.local'',
            password_hash = ''h:admin123'', role = ''admin''\<rparr>"

definition ex_db :: database where
  "ex_db = \<lparr>users = [admin], students = [ann], activities = [blocks],
            behavior_logs = ex_logs,
            activity_logs = [\<lparr>al_id = 1, al_student_id = 7, activity_id = 1, done_at = jan1,
                             remark = []\<rparr>]\<rparr>"

definition ex_app :: app where
  "ex_app = \<lparr>db = ex_db, flashes = [], logged_in = None\<rparr>"

text \<open>The forms that the examples submit.\<close>

definition student_rq :: "string \<Rightarrow> string \<Rightarrow> request" where
  "student_rq nm a = post [(''full_name'', nm), (''age'', a), (''gender'', ''M''), (''notes'', [])]"


definition login_rq :: "string \<Rightarrow> string \<Rightarrow> request" where
  "login_rq em pw = post [(''email'', em), (''password'', pw)]"

definition activity_rq :: "string \<Rightarrow> request" where
  "activity_rq t =
     post [(''title'', t), (''description'', ''logic''), (''category'', ''STEM''),
           (''age_min'', ''6''), (''age_max'', ''9'')]"


definition ex_check :: "string \<Rightarrow> string \<Rightarrow> bool" where
  "ex_check h pw = (h = ''h:'' @ pw)"

section \<open>Floats: the error of a quotient and of round(x, 2)\<close>

declare bit_length.simps [simp del]

declare decimal.simps [simp del]

lemma bit_length_upper: "n < 2 ^ bit_length n"
proof (induction n rule: bit_length.induct)
  case (1 n)
  show ?case
  proof (cases "n = 0")
    case True
    then show ?thesis by (simp add: bit_length.simps)
  next
    case False
    with "1.IH" have "n div 2 < 2 ^ bit_length (n div 2)" by simp
    then have "n < 2 * 2 ^ bit_length (n div 2)" by linarith
    with False show ?thesis by (simp add: bit_length.simps [of n])
  qed
qed

lemma bit_length_lower: "0 < n \<Longrightarrow> 2 ^ (bit_length n - 1) \<le> n"
proof (induction n rule: bit_length.induct)
  case (1 n)
  from "1.prems" have n: "n \<noteq> 0" by simp
  show ?case
  proof (cases "n div 2 = 0")
    case True
    with n show ?thesis by (simp add: bit_length.simps [of n] bit_length.simps [of 0])
  next
    case False
    with "1.IH" n have ih: "2 ^ (bit_length (n div 2) - 1) \<le> n div 2" by simp
    from False have "0 < bit_length (n div 2)" by (simp add: bit_length.simps [of "n div 2"])
    then have "(2::nat) ^ bit_length (n div 2) = 2 * 2 ^ (bit_length (n div 2) - 1)"
      by (cases "bit_length (n div 2)") simp_all
    with ih have "2 ^ bit_length (n div 2) \<le> n" by linarith
    with n show ?thesis by (simp add: bit_length.simps [of n])
  qed
qed

lemma round_half_even_bound: "\<bar>of_int (round_half_even y) - y\<bar> \<le> 1 / 2"
proof -
  have "of_int \<lfloor>y\<rfloor> \<le> y" "y < of_int \<lfloor>y\<rfloor> + 1" by linarith+
  then show ?thesis
    by (auto simp: round_half_even_def Let_def)
qed

lemma floor_log2_le:
  assumes "q \<noteq> 0"
  shows "2 powi (floor_log2 q) \<le> \<bar>q\<bar>"
proof -
  obtain a b where ab: "quotient_of \<bar>q\<bar> = (a, b)" by (cases "quotient_of \<bar>q\<bar>")
  have b: "0 < b" by (rule quotient_of_denom_pos [OF ab])
  have q: "\<bar>q\<bar> = of_int a / of_int b" by (rule quotient_of_div [OF ab])
  from assms have "0 < \<bar>q\<bar>" by simp
  with q b have a: "0 < a" by (simp add: zero_less_divide_iff)
  define la where "la = bit_length (nat a)"
  define lb where "lb = bit_length (nat b)"
  define l where "l = int la - int lb"
  have f: "floor_log2 q = (if 2 powi l \<le> \<bar>q\<bar> then l else l - 1)"
    by (simp add: floor_log2_def ab l_def la_def lb_def Let_def)
  from a have la: "0 < la" by (simp add: la_def bit_length.simps [of "nat a"])
  from a have "2 ^ (la - 1) \<le> nat a" unfolding la_def by (intro bit_length_lower) simp
  then have "(of_nat (2 ^ (la - 1)) :: rat) \<le> of_nat (nat a)" by (simp only: of_nat_le_iff)
  with a have lo: "(2::rat) ^ (la - 1) \<le> of_int a" by simp
  have "nat b < 2 ^ lb" unfolding lb_def by (rule bit_length_upper)
  then have "(of_nat (nat b) :: rat) < of_nat (2 ^ lb)" by (simp only: of_nat_less_iff)
  with b have up: "(of_int b :: rat) < 2 ^ lb" by simp
  from la have "l - 1 = int (la - 1) - int lb" by (simp add: l_def)
  then have "(2::rat) powi (l - 1) = 2 ^ (la - 1) / 2 ^ lb"
    by (simp add: power_int_diff)
  also have "\<dots> \<le> of_int a / 2 ^ lb"
    using lo by (simp add: divide_right_mono)
  also have "\<dots> \<le> of_int a / of_int b"
    using up a b by (simp add: frac_le)
  finally have "2 powi (l - 1) \<le> \<bar>q\<bar>" by (simp add: q)
  with f show ?thesis by simp
qed

lemma fl_approx: "approx_double q (fl q)"
proof (cases "q = 0")
  case True
  then show ?thesis by (simp add: approx_double_def fl_def)
next
  case False
  define e where "e = floor_log2 q - 52"
  define p :: rat where "p = 2 powi e"
  have p: "0 < p" by (simp add: p_def)
  have "p * 2 ^ 52 = 2 powi (floor_log2 q)"
    by (simp add: p_def e_def power_int_diff)
  with floor_log2_le [OF False] have pq: "p * 2 ^ 52 \<le> \<bar>q\<bar>" by simp
  define m :: rat where "m = of_int (round_half_even (q / p))"
  have "\<bar>m - q / p\<bar> \<le> 1 / 2"
    unfolding m_def by (rule round_half_even_bound)
  then have b: "\<bar>m - q / p\<bar> * p \<le> 1 / 2 * p"
    using p by (intro mult_right_mono) simp_all
  have eq: "(m - q / p) * p = m * p - q"
    using p by (simp add: left_diff_distrib)
  have "\<bar>m - q / p\<bar> * p = \<bar>m - q / p\<bar> * \<bar>p\<bar>" using p by simp
  also have "\<dots> = \<bar>(m - q / p) * p\<bar>" by (simp only: abs_mult)
  also have "\<dots> = \<bar>m * p - q\<bar>" by (simp only: eq)
  finally have "\<bar>m * p - q\<bar> \<le> p / 2" using b by simp
  also from pq have "p / 2 \<le> \<bar>q\<bar> / 2 ^ 53" by simp
  finally show ?thesis
    using False by (simp add: approx_double_def fl_def e_def p_def m_def Let_def)
qed

lemma round_mean_rounded: "rounded_to_2_places (exact_mean xs) (round_mean xs)"
proof -
  let ?x = "fl (exact_mean xs)"
  let ?k = "round_half_even (?x * 100)"
  have "\<bar>of_int ?k - ?x * 100\<bar> \<le> 1 / 2" by (rule round_half_even_bound)
  then have "\<bar>of_int ?k / 100 - ?x\<bar> \<le> 1 / 200" by (simp add: field_simps abs_le_iff)
  moreover have "approx_double (exact_mean xs) ?x" by (rule fl_approx)
  moreover have "approx_double (of_int ?k / 100) (round_mean xs)"
    unfolding round_mean_def py_round2_def exact_mean_def by (rule fl_approx)
  ultimately show ?thesis unfolding rounded_to_2_places_def by blast
qed

section \<open>The aggregation loop computes the sums and counts of the buckets\<close>

lemma getitem_update:
  "getitem (AList.update k v bs) k' = (if k' = k then v else getitem bs k')"
  by (simp add: getitem_def update_conv')

lemma getitem_accumulate:
  "getitem (accumulate period bs row) k =
     add_bucket (getitem bs k) (totals period [row] k)"
  by (simp add: accumulate_def Let_def getitem_update add_bucket_def totals_def rows_in_bucket_def)

lemma totals_Cons:
  "totals period (row # rows) k = add_bucket (totals period [row] k) (totals period rows k)"
  by (simp add: totals_def add_bucket_def rows_in_bucket_def)

lemma add_bucket_assoc: "add_bucket (add_bucket a b) c = add_bucket a (add_bucket b c)"
  by (simp add: add_bucket_def)

lemma getitem_foldl:
  "getitem (foldl (accumulate period) bs rows) k = add_bucket (getitem bs k) (totals period rows k)"
proof (induction rows arbitrary: bs)
  case Nil
  show ?case by (simp add: totals_def add_bucket_def rows_in_bucket_def)
next
  case (Cons row rows)
  show ?case
    by (simp add: Cons.IH getitem_accumulate totals_Cons [of period row rows] add_bucket_assoc)
qed

lemma keys_accumulate:
  "fst ` set (accumulate period bs row) = insert (bucket_key period (log_date row)) (fst ` set bs)"
  by (simp add: accumulate_def Let_def dom_update)

lemma keys_foldl:
  "fst ` set (foldl (accumulate period) bs rows) =
     fst ` set bs \<union> (\<lambda>row. bucket_key period (log_date row)) ` set rows"
  by (induction rows arbitrary: bs) (auto simp: keys_accumulate)

lemma distinct_accumulate:
  "distinct (map fst bs) \<Longrightarrow> distinct (map fst (accumulate period bs row))"
  by (simp add: accumulate_def Let_def distinct_update)

lemma distinct_foldl:
  "distinct (map fst bs) \<Longrightarrow> distinct (map fst (foldl (accumulate period) bs rows))"
  by (induction rows arbitrary: bs) (simp_all add: distinct_accumulate)

lemma add_bucket_getitem_Nil: "add_bucket (getitem [] k) b = b"
  by (simp add: getitem_def add_bucket_def)

lemma getitem_fill_buckets:
  "getitem (fill_buckets period rows) k = totals period rows k"
  by (simp add: fill_buckets_def getitem_foldl add_bucket_getitem_Nil)

lemma sorted_keys_fill_buckets:
  "sort (map fst (fill_buckets period rows)) = bucket_keys period rows"
proof (rule sorted_distinct_set_unique)
  show "sorted (sort (map fst (fill_buckets period rows)))" by simp
  show "distinct (sort (map fst (fill_buckets period rows)))"
    by (simp add: fill_buckets_def distinct_foldl)
  show "sorted (bucket_keys period rows)" by (simp add: bucket_keys_def)
  show "distinct (bucket_keys period rows)" by (simp add: bucket_keys_def)
  show "set (sort (map fst (fill_buckets period rows))) = set (bucket_keys period rows)"
    by (simp add: fill_buckets_def keys_foldl bucket_keys_def)
qed

lemma set_bucket_keys:
  "set (bucket_keys period rows) = (\<lambda>row. bucket_key period (log_date row)) ` set rows"
  by (simp add: bucket_keys_def)

lemma rows_in_bucket_nonempty:
  "k \<in> set (bucket_keys period rows) \<Longrightarrow> rows_in_bucket period rows k \<noteq> []"
  by (auto simp: bucket_keys_def rows_in_bucket_def filter_empty_conv)

lemma average_fill_buckets:
  assumes "k \<in> set (bucket_keys period rows)"
  shows "average b_mood (fill_buckets period rows) k =
           Inr (round_mean (map mood (rows_in_bucket period rows k)))"
    and "average b_focus (fill_buckets period rows) k =
           Inr (round_mean (map focus (rows_in_bucket period rows k)))"
    and "average b_social (fill_buckets period rows) k =
           Inr (round_mean (map social (rows_in_bucket period rows k)))"
  using rows_in_bucket_nonempty [OF assms]
  by (simp_all add: average_def getitem_fill_buckets totals_def py_truediv_def round_mean_def)

lemma comprehension_map:
  "(\<And>x. x \<in> set xs \<Longrightarrow> f x = Inr (g x)) \<Longrightarrow> comprehension f xs = Inr (map g xs)"
  by (induction xs) simp_all

lemma query_logs_bound:
  "sid < 2 ^ 63 \<Longrightarrow> query_logs tbl sid = Inr (logs_of_student tbl sid)"
  by (simp add: query_logs_def bind_id_def logs_of_student_def)

lemma query_logs_overflow: "2 ^ 63 \<le> sid \<Longrightarrow> query_logs tbl sid = Inl OverflowError"
  by (simp add: query_logs_def bind_id_def)

lemma aggregate_rows_eq:
  "(let bs = fill_buckets period rows; ls = sort (map fst bs)
    in case comprehension (average b_mood bs) ls of
         Inl e \<Rightarrow> Inl e
       | Inr ms \<Rightarrow>
           (case comprehension (average b_focus bs) ls of
              Inl e \<Rightarrow> Inl e
            | Inr fs \<Rightarrow>
                (case comprehension (average b_social bs) ls of
                   Inl e \<Rightarrow> Inl e
                 | Inr ss \<Rightarrow>
                     Inr \<lparr>labels = ls, c_mood = ms, c_focus = fs, c_social = ss\<rparr>)))
   = Inr \<lparr>labels = bucket_keys period rows,
          c_mood = map (\<lambda>k. round_mean (map mood (rows_in_bucket period rows k)))
                     (bucket_keys period rows),
          c_focus = map (\<lambda>k. round_mean (map focus (rows_in_bucket period rows k)))
                      (bucket_keys period rows),
          c_social = map (\<lambda>k. round_mean (map social (rows_in_bucket period rows k)))
                       (bucket_keys period rows)\<rparr>"
proof -
  let ?ks = "bucket_keys period rows"
  let ?bs = "fill_buckets period rows"
  have m: "comprehension (average b_mood ?bs) ?ks =
             Inr (map (\<lambda>k. round_mean (map mood (rows_in_bucket period rows k))) ?ks)"
    by (rule comprehension_map) (rule average_fill_buckets)
  have f: "comprehension (average b_focus ?bs) ?ks =
             Inr (map (\<lambda>k. round_mean (map focus (rows_in_bucket period rows k))) ?ks)"
    by (rule comprehension_map) (rule average_fill_buckets)
  have s: "comprehension (average b_social ?bs) ?ks =
             Inr (map (\<lambda>k. round_mean (map social (rows_in_bucket period rows k))) ?ks)"
    by (rule comprehension_map) (rule average_fill_buckets)
  show ?thesis
    by (simp add: Let_def sorted_keys_fill_buckets m f s)
qed

lemma aggregate_behavior_eq:
  assumes "sid < 2 ^ 63"
  shows "aggregate_behavior tbl sid period =
     Inr \<lparr>labels = bucket_keys period (logs_of_student tbl sid),
          c_mood = map (\<lambda>k. round_mean (map mood
                                 (rows_in_bucket period (logs_of_student tbl sid) k)))
                     (bucket_keys period (logs_of_student tbl sid)),
          c_focus = map (\<lambda>k. round_mean (map focus
                                  (rows_in_bucket period (logs_of_student tbl sid) k)))
                      (bucket_keys period (logs_of_student tbl sid)),
          c_social = map (\<lambda>k. round_mean (map social
                                   (rows_in_bucket period (logs_of_student tbl sid) k)))
                       (bucket_keys period (logs_of_student tbl sid))\<rparr>"
  unfolding aggregate_behavior_def query_logs_bound [OF assms] sum.case
  by (rule aggregate_rows_eq)

lemma aggregate_behavior_overflow:
  "2 ^ 63 \<le> sid \<Longrightarrow> aggregate_behavior tbl sid period = Inl OverflowError"
  by (simp add: aggregate_behavior_def query_logs_overflow)

subsection \<open>The bucket keys determine the calendar unit\<close>

lemma length_zero_pad: "length (zero_pad w n) = w"
  by (induction w arbitrary: n) simp_all

lemma digits_value_snoc: "digits_value (s @ [c]) = 10 * digits_value s + (of_char c - 48)"
  by (simp add: digits_value_def)

lemma of_char_digit_char: "(of_char (digit_char n) :: nat) = 48 + n mod 10"
  by (simp add: digit_char_def)

lemma digits_value_zero_pad: "digits_value (zero_pad w n) = n mod 10 ^ w"
proof (induction w arbitrary: n)
  case 0
  show ?case by (simp add: digits_value_def)
next
  case (Suc w)
  have "n mod (10 * 10 ^ w) = 10 * (n div 10 mod 10 ^ w) + n mod 10"
    by (rule mod_mult2_eq)
  then show ?case
    by (simp add: digits_value_snoc of_char_digit_char Suc.IH)
qed

lemma zero_pad_eq_iff:
  assumes "n < 10 ^ w" and "m < 10 ^ w"
  shows "zero_pad w n = zero_pad w m \<longleftrightarrow> n = m"
proof
  assume "zero_pad w n = zero_pad w m"
  then have "digits_value (zero_pad w n) = digits_value (zero_pad w m)" by simp
  with assms show "n = m" by (simp add: digits_value_zero_pad)
qed simp


lemma digits_value_decimal: "digits_value (decimal n) = n"
proof (induction n rule: decimal.induct)
  case (1 n)
  show ?case
  proof (cases "n < 10")
    case True
    then show ?thesis
      by (simp add: decimal.simps [of n] digits_value_def of_char_digit_char)
  next
    case False
    with "1.IH" have "digits_value (decimal (n div 10)) = n div 10" by simp
    with False show ?thesis
      by (simp add: decimal.simps [of n] digits_value_snoc of_char_digit_char)
  qed
qed


lemma decimal_eq_iff: "decimal n = decimal m \<longleftrightarrow> n = m"
proof
  assume "decimal n = decimal m"
  then have "digits_value (decimal n) = digits_value (decimal m)" by simp
  then show "n = m" by (simp add: digits_value_decimal)
qed simp


lemma strftime_Y_eq_iff: "strftime_Y d = strftime_Y d' \<longleftrightarrow> year d = year d'"
  by (simp add: strftime_Y_def decimal_eq_iff)

lemma strftime_Ym_eq_iff:
  assumes "valid_date d" and "valid_date d'"
  shows "strftime_Ym d = strftime_Ym d' \<longleftrightarrow> year d = year d' \<and> month d = month d'"
  using assms
  by (simp add: strftime_Ym_def valid_date_def length_zero_pad zero_pad_eq_iff decimal_eq_iff)

lemma strftime_Ymd_eq_iff:
  assumes "valid_date d" and "valid_date d'"
  shows "strftime_Ymd d = strftime_Ymd d' \<longleftrightarrow>
           year d = year d' \<and> month d = month d' \<and> day d = day d'"
  using assms
  by (simp add: strftime_Ymd_def valid_date_def length_zero_pad zero_pad_eq_iff decimal_eq_iff)

subsection \<open>Evaluating the keys of the example dates\<close>

lemma zero_pad_numeral:
  "zero_pad (numeral k) n = zero_pad (pred_numeral k) (n div 10) @ [digit_char n]"
  using zero_pad.simps(2) [of "pred_numeral k" n] by (simp only: numeral_eq_Suc [symmetric])

lemma decimal_numeral:
  "decimal (numeral k) =
     (if (numeral k :: nat) < 10 then [digit_char (numeral k)]
      else decimal (numeral k div 10) @ [digit_char (numeral k)])"
  by (rule decimal.simps)

lemmas key_eval =
  bucket_key_def strftime_Ymd_def strftime_Ym_def strftime_Y_def jan1_def feb15_def year999_def
  zero_pad_numeral decimal_numeral digit_char_def char_of_def bit_Suc_0_iff

lemma daily_keys:
  "bucket_key ''daily'' jan1 = ''2024-01-01''" "bucket_key ''daily'' feb15 = ''2024-02-15''"
  by (simp_all add: key_eval)

lemma monthly_keys:
  "bucket_key ''monthly'' jan1 = ''2024-01''" "bucket_key ''monthly'' feb15 = ''2024-02''"
  by (simp_all add: key_eval)


lemma logs_of_student_ex:
  "logs_of_student ex_logs 7 = [ex_logs ! 0, ex_logs ! 2, ex_logs ! 3]"
  "logs_of_student ex_logs 8 = []"
  by (simp_all add: logs_of_student_def ex_logs_def)

lemma log_dates_ex:
  "log_date (ex_logs ! 0) = jan1" "log_date (ex_logs ! 2) = jan1"
  "log_date (ex_logs ! 3) = feb15"
  by (simp_all add: ex_logs_def)

subsection \<open>Evaluating the example tables\<close>

lemma bucket_keys_one_key:
  assumes "rows \<noteq> []" and "\<forall>row \<in> set rows. bucket_key period (log_date row) = k"
  shows "bucket_keys period rows = [k]" and "rows_in_bucket period rows k = rows"
proof -
  from assms have s: "set (bucket_keys period rows) = {k}"
    by (cases rows) (auto simp: set_bucket_keys)
  have d: "distinct (bucket_keys period rows)" by (simp add: bucket_keys_def)
  show "bucket_keys period rows = [k]"
  proof (cases "bucket_keys period rows")
    case Nil
    with s show ?thesis by simp
  next
    case (Cons x xs)
    with s d have "x = k" "set xs \<subseteq> {k}" "k \<notin> set xs" by auto
    then have "xs = []" by (cases xs) auto
    with Cons \<open>x = k\<close> show ?thesis by simp
  qed
  from assms(2) show "rows_in_bucket period rows k = rows"
    by (simp add: rows_in_bucket_def)
qed

lemma round_mean_eq:
  "sum_list xs = s \<Longrightarrow> length xs = n \<Longrightarrow> round_mean xs = py_round2 (fl (of_int s / of_int (int n)))"
  by (simp add: round_mean_def)

lemma exact_mean_eq:
  "sum_list xs = s \<Longrightarrow> length xs = n \<Longrightarrow> exact_mean xs = of_int s / of_int (int n)"
  by (simp add: exact_mean_def)

lemma round_value_tie: "py_round2 (fl (107 / 40)) = 1503076375634903 / 562949953421312"
  by code_simp

lemma round_value_3: "py_round2 (fl 3) = 3"
  by code_simp

lemma round_value_4: "py_round2 (fl 4) = 4"
  by code_simp

lemma round_value_1: "py_round2 (fl 1) = 1"
  by code_simp

lemma round_value_2: "py_round2 (fl 2) = 2"
  by code_simp

lemma round_value_5: "py_round2 (fl 5) = 5"
  by code_simp

lemma round_value_7_2: "py_round2 (fl (7 / 2)) = 7 / 2"
  by code_simp

lemmas round_values =
  round_value_tie round_value_3 round_value_4 round_value_1 round_value_2 round_value_5
  round_value_7_2

lemma score_row_fields:
  "student_id (score_row d m) = 7" "log_date (score_row d m) = d" "mood (score_row d m) = m"
  "focus (score_row d m) = 3" "social (score_row d m) = 3"
  by (simp_all add: score_row_def)

lemma one_day_table:
  assumes "rows \<noteq> []" and "\<forall>row \<in> set rows. student_id row = 7 \<and> log_date row = d"
    and "bucket_key period d = k"
  shows "aggregate_behavior rows 7 period =
           Inr \<lparr>labels = [k], c_mood = [round_mean (map mood rows)],
                c_focus = [round_mean (map focus rows)],
                c_social = [round_mean (map social rows)]\<rparr>"
proof -
  from assms(2) have l: "logs_of_student rows 7 = rows"
    by (simp add: logs_of_student_def)
  from assms(2,3) have "\<forall>row \<in> set rows. bucket_key period (log_date row) = k" by simp
  from bucket_keys_one_key [OF assms(1) this] show ?thesis
    by (simp add: aggregate_behavior_eq l)
qed

section \<open>Claims about the aggregation\<close>

text \<open>
  Claim C1, as amended. For a student id that the database can hold, the aggregation
  buckets that student's logs by calendar key: for dates in the range of
  \<open>datetime.date\<close> two daily keys are equal exactly when the dates are, two monthly keys
  when year and month are, two yearly keys when the years are. The labels are the keys
  of the student's rows, each once, sorted lexicographically, and the three other
  sequences run parallel to them. Each average is the mean of the bucket held as a float
  and rounded to two decimal places: a float for a multiple of one hundredth that lies
  within half a hundredth of the float quotient of sum and count. It need not be the
  exact mean rounded to two decimal places: 27 moods of 3 and 13 of 2 have the mean
  2.675 and the average returned is the float just below 2.67 (the counterexample
  below). Two logs on 2024-01-01 with mood 4 and mood 2 give the bucket \<open>2024-01-01\<close>
  with mood 3.0.
\<close>

theorem aggregate_behavior_buckets:
  assumes "sid < 2 ^ 63"
  shows "(\<exists>c. aggregate_behavior tbl sid period = Inr c
           \<and> labels c = bucket_keys period (logs_of_student tbl sid)
           \<and> length (c_mood c) = length (labels c)
           \<and> length (c_focus c) = length (labels c)
           \<and> length (c_social c) = length (labels c)
           \<and> (\<forall>i < length (labels c).
                 rounded_to_2_places
                   (exact_mean (map mood
                      (rows_in_bucket period (logs_of_student tbl sid) (labels c ! i))))
                   (c_mood c ! i)
               \<and> rounded_to_2_places
                   (exact_mean (map focus
                      (rows_in_bucket period (logs_of_student tbl sid) (labels c ! i))))
                   (c_focus c ! i)
               \<and> rounded_to_2_places
                   (exact_mean (map social
                      (rows_in_bucket period (logs_of_student tbl sid) (labels c ! i))))
                   (c_social c ! i)))
   \<and> (valid_date d \<and> valid_date d' \<longrightarrow>
        (bucket_key ''daily'' d = bucket_key ''daily'' d'
           \<longleftrightarrow> year d = year d' \<and> month d = month d' \<and> day d = day d')
      \<and> (bucket_key ''monthly'' d = bucket_key ''monthly'' d'
           \<longleftrightarrow> year d = year d' \<and> month d = month d')
      \<and> (bucket_key ''yearly'' d = bucket_key ''yearly'' d' \<longleftrightarrow> year d = year d'))"
proof (intro conjI impI)
  show "\<exists>c. aggregate_behavior tbl sid period = Inr c
           \<and> labels c = bucket_keys period (logs_of_student tbl sid)
           \<and> length (c_mood c) = length (labels c)
           \<and> length (c_focus c) = length (labels c)
           \<and> length (c_social c) = length (labels c)
           \<and> (\<forall>i < length (labels c).
                 rounded_to_2_places
                   (exact_mean (map mood
                      (rows_in_bucket period (logs_of_student tbl sid) (labels c ! i))))
                   (c_mood c ! i)
               \<and> rounded_to_2_places
                   (exact_mean (map focus
                      (rows_in_bucket period (logs_of_student tbl sid) (labels c ! i))))
                   (c_focus c ! i)
               \<and> rounded_to_2_places
                   (exact_mean (map social
                      (rows_in_bucket period (logs_of_student tbl sid) (labels c ! i))))
                   (c_social c ! i))"
    by (simp add: aggregate_behavior_eq [OF assms] round_mean_rounded)
next
  assume v: "valid_date d \<and> valid_date d'"
  then show "bucket_key ''daily'' d = bucket_key ''daily'' d'
           \<longleftrightarrow> year d = year d' \<and> month d = month d' \<and> day d = day d'"
    by (simp add: bucket_key_def strftime_Ymd_eq_iff)
  from v show "bucket_key ''monthly'' d = bucket_key ''monthly'' d'
           \<longleftrightarrow> year d = year d' \<and> month d = month d'"
    by (simp add: bucket_key_def strftime_Ym_eq_iff)
  show "bucket_key ''yearly'' d = bucket_key ''yearly'' d' \<longleftrightarrow> year d = year d'"
    by (simp add: bucket_key_def strftime_Y_eq_iff)
qed

lemma ex_logs_daily:
  "aggregate_behavior ex_logs 7 ''daily'' =
     Inr \<lparr>labels = [''2024-01-01'', ''2024-02-15''], c_mood = [3, 1], c_focus = [7 / 2, 1],
          c_social = [5, 2]\<rparr>"
    "rows_in_bucket ''daily'' (logs_of_student ex_logs 7) ''2024-01-01''
         = [ex_logs ! 0, ex_logs ! 2]"
proof -
  have ks: "bucket_keys ''daily'' (logs_of_student ex_logs 7) = [''2024-01-01'', ''2024-02-15'']"
    by (simp add: bucket_keys_def logs_of_student_ex log_dates_ex daily_keys)
  show r1: "rows_in_bucket ''daily'' (logs_of_student ex_logs 7) ''2024-01-01''
              = [ex_logs ! 0, ex_logs ! 2]"
    by (simp add: rows_in_bucket_def logs_of_student_ex log_dates_ex daily_keys)
  have r2: "rows_in_bucket ''daily'' (logs_of_student ex_logs 7) ''2024-02-15'' = [ex_logs ! 3]"
    by (simp add: rows_in_bucket_def logs_of_student_ex log_dates_ex daily_keys)
  have s: "mood (ex_logs ! 0) = 4" "mood (ex_logs ! 2) = 2" "mood (ex_logs ! 3) = 1"
    "focus (ex_logs ! 0) = 3" "focus (ex_logs ! 2) = 4" "focus (ex_logs ! 3) = 1"
    "social (ex_logs ! 0) = 5" "social (ex_logs ! 2) = 5" "social (ex_logs ! 3) = 2"
    by (simp_all add: ex_logs_def)
  have m: "round_mean [4, 2] = 3" "round_mean [1] = 1" "round_mean [3, 4] = 7 / 2"
    "round_mean [5, 5] = 5" "round_mean [2] = 2"
    by (simp_all add: round_mean_def round_values)
  have "(7::nat) < 2 ^ 63" by simp
  from aggregate_behavior_eq [OF this, of ex_logs "''daily''"]
  show "aggregate_behavior ex_logs 7 ''daily'' =
     Inr \<lparr>labels = [''2024-01-01'', ''2024-02-15''], c_mood = [3, 1], c_focus = [7 / 2, 1],
          c_social = [5, 2]\<rparr>"
    by (simp only: ks list.map r1 r2 s m)
qed

theorem aggregate_behavior_buckets_witness:
  "(7::nat) < 2 ^ 63
   \<and> aggregate_behavior ex_logs 7 ''daily'' =
     Inr \<lparr>labels = [''2024-01-01'', ''2024-02-15''], c_mood = [3, 1], c_focus = [7 / 2, 1],
          c_social = [5, 2]\<rparr>
   \<and> rounded_to_2_places (exact_mean [4, 2]) 3
   \<and> valid_date jan1 \<and> valid_date feb15
   \<and> bucket_key ''daily'' jan1 \<noteq> bucket_key ''daily'' feb15
   \<and> bucket_key ''monthly'' jan1 \<noteq> bucket_key ''monthly'' feb15
   \<and> bucket_key ''yearly'' jan1 = bucket_key ''yearly'' feb15"
proof -
  have b: "(7::nat) < 2 ^ 63" by simp
  have v: "valid_date jan1 \<and> valid_date feb15"
    by (simp add: valid_date_def jan1_def feb15_def)
  have y: "year jan1 = year feb15" "month jan1 \<noteq> month feb15"
    by (simp_all add: jan1_def feb15_def)
  note t = aggregate_behavior_buckets [OF b, of ex_logs "''daily''" jan1 feb15]
  from t obtain c where c: "aggregate_behavior ex_logs 7 ''daily'' = Inr c"
    and r: "\<forall>i < length (labels c).
              rounded_to_2_places
                (exact_mean (map mood
                   (rows_in_bucket ''daily'' (logs_of_student ex_logs 7) (labels c ! i))))
                (c_mood c ! i)"
    by blast
  from c have ceq: "c = \<lparr>labels = [''2024-01-01'', ''2024-02-15''], c_mood = [3, 1],
                         c_focus = [7 / 2, 1], c_social = [5, 2]\<rparr>"
    by (simp add: ex_logs_daily(1))
  have "0 < length (labels c)" by (simp add: ceq)
  from r [rule_format, OF this] have m: "rounded_to_2_places (exact_mean [4, 2]) 3"
    by (simp add: ceq ex_logs_daily(2)) (simp add: ex_logs_def)
  from t v y have k: "bucket_key ''daily'' jan1 \<noteq> bucket_key ''daily'' feb15
     \<and> bucket_key ''monthly'' jan1 \<noteq> bucket_key ''monthly'' feb15
     \<and> bucket_key ''yearly'' jan1 = bucket_key ''yearly'' feb15"
    by simp
  from b v m k show ?thesis by (simp add: ex_logs_daily(1))
qed

theorem aggregate_behavior_rounding_counterexample:
  "aggregate_behavior tie_logs 7 ''daily'' =
     Inr \<lparr>labels = [''2024-01-01''], c_mood = [1503076375634903 / 562949953421312],
          c_focus = [3], c_social = [3]\<rparr>
   \<and> length tie_logs = 40
   \<and> exact_mean (map mood tie_logs) = 2675 / 1000
   \<and> (1 / 200 :: rat) < 2675 / 1000 - 1503076375634903 / 562949953421312
   \<and> \<bar>267 / 100 - 1503076375634903 / 562949953421312\<bar> < (1 / 10 ^ 15 :: rat)"
proof -
  have ne: "tie_logs \<noteq> []" by (simp add: tie_logs_def)
  have all: "\<forall>row \<in> set tie_logs. student_id row = 7 \<and> log_date row = jan1"
    by (auto simp: tie_logs_def score_row_fields)
  have sm: "sum_list (map mood tie_logs) = 107" "sum_list (map focus tie_logs) = 120"
    "sum_list (map social tie_logs) = 120" "length tie_logs = 40"
    by (simp_all add: tie_logs_def score_row_fields sum_list_replicate)
  have r: "round_mean (map mood tie_logs) = 1503076375634903 / 562949953421312"
    "round_mean (map focus tie_logs) = 3" "round_mean (map social tie_logs) = 3"
    by (simp_all add: round_mean_def sm round_values)
  have e: "exact_mean (map mood tie_logs) = 2675 / 1000"
    by (simp add: exact_mean_def sm)
  from one_day_table [OF ne all daily_keys(1)] r e sm(4) show ?thesis by simp
qed

text \<open>
  Claim C5, as amended. For a student id below \<open>2 ^ 63\<close> with no behavior log in the table
  (whether or not a student with that id exists: the aggregation never reads the student
  table), the aggregation returns four empty sequences for every period, and the
  endpoint does so for every query string; no error is raised. An id from \<open>2 ^ 63\<close> on,
  which the URL admits and no stored row can have, raises OverflowError when the query
  binds it.
\<close>

theorem aggregate_behavior_no_logs:
  "(sid < 2 ^ 63 \<and> logs_of_student tbl sid = [] \<longrightarrow>
      aggregate_behavior tbl sid period =
        Inr \<lparr>labels = [], c_mood = [], c_focus = [], c_social = []\<rparr>
      \<and> api_behavior tbl qargs sid =
        Inr \<lparr>labels = [], c_mood = [], c_focus = [], c_social = []\<rparr>)
   \<and> (2 ^ 63 \<le> sid \<longrightarrow>
        aggregate_behavior tbl sid period = Inl OverflowError
        \<and> api_behavior tbl qargs sid = Inl OverflowError)"
  by (simp add: api_behavior_def aggregate_behavior_eq aggregate_behavior_overflow
      bucket_keys_def)

theorem aggregate_behavior_no_logs_witness:
  "(8::nat) < 2 ^ 63 \<and> logs_of_student ex_logs 8 = []
   \<and> aggregate_behavior ex_logs 8 ''monthly'' =
       Inr \<lparr>labels = [], c_mood = [], c_focus = [], c_social = []\<rparr>
   \<and> api_behavior ex_logs (map_of [(''period'', ''weekly'')]) 8 =
       Inr \<lparr>labels = [], c_mood = [], c_focus = [], c_social = []\<rparr>
   \<and> api_behavior ex_logs (map_of [(''period'', ''weekly'')]) (2 ^ 63) = Inl OverflowError"
  using aggregate_behavior_no_logs [of 8 ex_logs "''monthly''" "map_of [(''period'', ''weekly'')]"]
    aggregate_behavior_no_logs [of "2 ^ 63" ex_logs "''monthly''"
      "map_of [(''period'', ''weekly'')]"]
  by (simp add: logs_of_student_ex)

theorem aggregate_behavior_overflow_counterexample:
  "map student_id ex_logs = [7, 9, 7, 7]
   \<and> logs_of_student ex_logs 9223372036854775808 = []
   \<and> aggregate_behavior ex_logs 9223372036854775808 ''daily'' = Inl OverflowError"
  by (simp add: aggregate_behavior_overflow) (simp add: ex_logs_def logs_of_student_def)





text \<open>
  Claim C10. Every key in the labels was inserted by at least one row of the query, so
  the count of its bucket is at least 1 and none of the three divisions raises
  ZeroDivisionError; whenever the aggregation returns, its four sequences have equal
  length, and it returns for every id that the query can bind.
\<close>

theorem aggregate_behavior_no_zero_division:
  "(\<forall>k \<in> set (sort (map fst (fill_buckets period (logs_of_student tbl sid)))).
      1 \<le> b_n (getitem (fill_buckets period (logs_of_student tbl sid)) k)
      \<and> (\<exists>row \<in> set (logs_of_student tbl sid). bucket_key period (log_date row) = k)
      \<and> average b_mood (fill_buckets period (logs_of_student tbl sid)) k \<noteq> Inl ZeroDivisionError
      \<and> average b_focus (fill_buckets period (logs_of_student tbl sid)) k \<noteq> Inl ZeroDivisionError
      \<and> average b_social (fill_buckets period (logs_of_student tbl sid)) k
           \<noteq> Inl ZeroDivisionError)
   \<and> aggregate_behavior tbl sid period \<noteq> Inl ZeroDivisionError
   \<and> (sid < 2 ^ 63 \<longrightarrow>
        (\<exists>c. aggregate_behavior tbl sid period = Inr c
           \<and> labels c = sort (map fst (fill_buckets period (logs_of_student tbl sid)))))
   \<and> (\<forall>c. aggregate_behavior tbl sid period = Inr c \<longrightarrow>
          length (c_mood c) = length (labels c)
          \<and> length (c_focus c) = length (labels c)
          \<and> length (c_social c) = length (labels c))"
proof (intro conjI ballI allI impI)
  fix k
  assume "k \<in> set (sort (map fst (fill_buckets period (logs_of_student tbl sid))))"
  then have k: "k \<in> set (bucket_keys period (logs_of_student tbl sid))"
    by (simp only: sorted_keys_fill_buckets)
  from rows_in_bucket_nonempty [OF k]
  show "1 \<le> b_n (getitem (fill_buckets period (logs_of_student tbl sid)) k)"
    by (cases "rows_in_bucket period (logs_of_student tbl sid) k")
       (simp_all add: getitem_fill_buckets totals_def)
  from k show "\<exists>row \<in> set (logs_of_student tbl sid). bucket_key period (log_date row) = k"
    by (auto simp: set_bucket_keys)
  show "average b_mood (fill_buckets period (logs_of_student tbl sid)) k \<noteq> Inl ZeroDivisionError"
    by (simp add: average_fill_buckets(1) [OF k])
  show "average b_focus (fill_buckets period (logs_of_student tbl sid)) k \<noteq> Inl ZeroDivisionError"
    by (simp add: average_fill_buckets(2) [OF k])
  show "average b_social (fill_buckets period (logs_of_student tbl sid)) k
          \<noteq> Inl ZeroDivisionError"
    by (simp add: average_fill_buckets(3) [OF k])
next
  show "aggregate_behavior tbl sid period \<noteq> Inl ZeroDivisionError"
    by (cases "sid < 2 ^ 63") (simp_all add: aggregate_behavior_eq aggregate_behavior_overflow)
next
  assume "sid < 2 ^ 63"
  then show "\<exists>c. aggregate_behavior tbl sid period = Inr c
           \<and> labels c = sort (map fst (fill_buckets period (logs_of_student tbl sid)))"
    by (simp add: aggregate_behavior_eq sorted_keys_fill_buckets)
next
  fix c
  assume c: "aggregate_behavior tbl sid period = Inr c"
  then have "sid < 2 ^ 63"
    by (cases "sid < 2 ^ 63") (simp_all add: aggregate_behavior_overflow)
  with c have l: "length (c_mood c) = length (labels c) \<and> length (c_focus c) = length (labels c)
    \<and> length (c_social c) = length (labels c)"
    by (auto simp: aggregate_behavior_eq)
  from l show "length (c_mood c) = length (labels c)" by simp
  from l show "length (c_focus c) = length (labels c)" by simp
  from l show "length (c_social c) = length (labels c)" by simp
qed

theorem aggregate_behavior_no_zero_division_witness:
  "''2024-01'' \<in> set (sort (map fst (fill_buckets ''monthly'' (logs_of_student ex_logs 7))))
   \<and> 1 \<le> b_n (getitem (fill_buckets ''monthly'' (logs_of_student ex_logs 7)) ''2024-01'')
   \<and> average b_mood (fill_buckets ''monthly'' (logs_of_student ex_logs 7)) ''2024-01''
       \<noteq> Inl ZeroDivisionError
   \<and> (\<exists>c. aggregate_behavior ex_logs 7 ''monthly'' = Inr c
          \<and> length (c_mood c) = length (labels c))"
proof -
  have "bucket_keys ''monthly'' (logs_of_student ex_logs 7) = [''2024-01'', ''2024-02'']"
    by (simp add: bucket_keys_def logs_of_student_ex log_dates_ex monthly_keys)
  then have "''2024-01'' \<in> set (sort (map fst (fill_buckets ''monthly'' (logs_of_student ex_logs 7))))"
    by (simp only: sorted_keys_fill_buckets) simp
  moreover have "(7::nat) < 2 ^ 63" by simp
  ultimately show ?thesis
    using aggregate_behavior_no_zero_division [of "''monthly''" ex_logs 7] by blast
qed

section \<open>The session, lookups and string normalization\<close>

lemma session_remove_add: "session_remove (session_add p (new_session d)) = d"
  by (simp add: session_remove_def session_add_def new_session_def)

lemma session_remove_commit:
  "session_remove (session_commit (session_add p (new_session d))) = flush_one p d"
  by (simp add: session_remove_def session_commit_def session_add_def new_session_def)

lemma store_new_session: "store (new_session d) = d"
  by (simp add: new_session_def)

lemma get_or_404_bound: "i < 2 ^ 63 \<Longrightarrow> get_or_404 key rows i = Inr (find (\<lambda>r. key r = i) rows)"
  by (simp add: get_or_404_def bind_id_def)

lemma get_or_404_overflow: "2 ^ 63 \<le> i \<Longrightarrow> get_or_404 key rows i = Inl OverflowError"
  by (simp add: get_or_404_def bind_id_def)

lemma get_or_404_Inr:
  "get_or_404 key rows i = Inr x \<Longrightarrow> i < 2 ^ 63 \<and> find (\<lambda>r. key r = i) rows = x"
  by (simp add: get_or_404_def bind_id_def split: if_splits)

lemma get_or_404_key:
  "get_or_404 key rows i = Inr (Some r) \<Longrightarrow> key r = i \<and> r \<in> set rows \<and> i < 2 ^ 63"
  by (auto dest!: get_or_404_Inr simp: find_Some_iff)

lemma get_or_404_None:
  "get_or_404 key rows i = Inr None \<longleftrightarrow> i < 2 ^ 63 \<and> i \<notin> key ` set rows"
  by (cases "i < (2::nat) ^ 63")
     (auto simp: get_or_404_bound get_or_404_overflow find_None_iff)

lemma get_or_404_filter:
  "i < 2 ^ 63 \<Longrightarrow> get_or_404 key (filter (\<lambda>r. key r \<noteq> i) rows) i = Inr None"
  by (auto simp: get_or_404_None)

lemma find_filter_remove1:
  "distinct (map key rows) \<Longrightarrow> find (\<lambda>x. key x = i) rows = Some r \<Longrightarrow>
     filter (\<lambda>x. key x \<noteq> i) rows = remove1 r rows"
proof (induction rows)
  case Nil
  then show ?case by simp
next
  case (Cons x rows)
  show ?case
  proof (cases "key x = i")
    case True
    with Cons.prems have "r = x" by simp
    moreover from Cons.prems(1) have "key x \<notin> key ` set rows" by simp
    with True have "\<forall>y \<in> set rows. key y \<noteq> i" by (metis imageI)
    then have "filter (\<lambda>x. key x \<noteq> i) rows = rows" by (simp add: filter_id_conv)
    ultimately show ?thesis using True by simp
  next
    case False
    with Cons.prems have g: "find (\<lambda>x. key x = i) rows = Some r" by simp
    then have "key r = i" by (auto simp: find_Some_iff)
    with False have "x \<noteq> r" by auto
    with Cons.IH [OF _ g] Cons.prems(1) False show ?thesis by simp
  qed
qed

lemma filter_remove1:
  "distinct (map key rows) \<Longrightarrow> get_or_404 key rows i = Inr (Some r) \<Longrightarrow>
     filter (\<lambda>x. key x \<noteq> i) rows = remove1 r rows"
  by (auto dest!: get_or_404_Inr intro: find_filter_remove1)

lemma flash_db: "db (flash m c st) = db st"
  by (simp add: flash_def)

lemma flash_logged_in: "logged_in (flash m c st) = logged_in st"
  by (simp add: flash_def)

lemma blank_strip: "blank s \<longleftrightarrow> strip s = []"
  by (simp add: blank_def)

lemma of_char_lower_range:
  assumes "k < 224"
  shows "(of_char (char_of (k + 32 :: nat)) :: nat) = k + 32"
  using assms by simp




subsection \<open>Evaluating the example forms\<close>

lemma form_get_post:
  "form_get (post kvs) k dflt = (case map_of kvs k of None \<Rightarrow> dflt | Some v \<Rightarrow> v)"
  by (simp add: form_get_def post_def)

lemma http_method_post: "http_method (post kvs) = ''POST''"
  by (simp add: post_def)

lemma int_of_digits_ex:
  "int_of_digits ''5'' = Some 5" "int_of_digits ''6'' = Some 6" "int_of_digits ''9'' = Some 9"
  "int_of_digits ''12'' = Some 12" "int_of_digits ''13'' = Some 13"
  by (simp_all add: int_of_digits_def is_digit_def digits_value_def)

lemma strip_ex:
  "strip ''Bob'' = ''Bob''" "strip '' '' = []" "strip [] = []"
  "strip '' Admin@Kidanta.Local '' = ''Admin@Kidanta.Local''"
  "strip ''new@kidanta.local'' = ''new@kidanta.local''"
  "strip ''nobody@kidanta.local'' = ''nobody@kidanta.local''"
  "strip ''admin@kidanta.local'' = ''admin@kidanta.local''"
  "strip ''New@Kidanta.Local'' = ''New@Kidanta.Local''"
  "strip ''Nok'' = ''Nok''"
  by (simp_all add: strip_def is_space_def)

lemma lower_ex:
  "lower ''Admin@Kidanta.Local'' = ''admin@kidanta.local''"
  "lower ''admin@kidanta.local'' = ''admin@kidanta.local''"
  "lower ''new@kidanta.local'' = ''new@kidanta.local''"
  "lower ''New@Kidanta.Local'' = ''new@kidanta.local''"
  "lower ''nobody@kidanta.local'' = ''nobody@kidanta.local''"
  by (simp_all add: lower_def lower_char_def Let_def char_of_def bit_Suc_0_iff)

section \<open>Claims about the student forms\<close>

lemma student_new_post:
  assumes "http_method rq = ''POST''" and "form_int py_int rq ''age'' ''0'' 0 = Some a"
  shows "student_new py_int uid rq st =
           (if blank (form_get rq ''full_name'' '''') \<or> a < 6 \<or> 12 < a
            then (Inr (Redirect ''student_new'' None), flash Msg_name_and_age_6_12 ''danger'' st)
            else (Inr (Redirect ''students'' None),
                  flash Msg_student_saved ''success''
                    (st\<lparr>db := (db st)\<lparr>students := students (db st) @
                       [\<lparr>s_id = next_id (map s_id (students (db st))),
                         full_name = strip (form_get rq ''full_name'' ''''), age = a,
                         gender = form_get rq ''gender'' '''',
                         s_notes = form_get rq ''notes'' '''',
                         s_created_by = Some uid\<rparr>]\<rparr>\<rparr>)))"
  using assms
  by (simp add: student_new_def Let_def blank_def session_remove_commit)

lemma student_edit_post:
  assumes "http_method rq = ''POST''" and "form_int py_int rq ''age'' ''0'' 0 = Some a"
    and "get_or_404 s_id (students (db st)) sid = Inr (Some s)"
  shows "student_edit py_int rq sid st =
           (if blank (form_get rq ''full_name'' '''') \<or> a < 6 \<or> 12 < a
            then (Inr (Redirect ''student_edit'' (Some sid)),
                  flash Msg_name_and_age_6_12 ''danger'' st)
            else (Inr (Redirect ''students'' None),
                  flash Msg_student_edited ''success''
                    (st\<lparr>db := (db st)\<lparr>students :=
                       map (\<lambda>r. if s_id r = sid
                                then s\<lparr>full_name := strip (form_get rq ''full_name'' ''''),
                                       age := a, gender := form_get rq ''gender'' '''',
                                       s_notes := form_get rq ''notes'' ''''\<rparr>
                                else r)
                         (students (db st))\<rparr>\<rparr>)))"
proof -
  from get_or_404_key [OF assms(3)] have k: "s_id s = sid" by simp
  show ?thesis
    using assms k
    by (simp add: student_edit_def Let_def blank_def store_new_session session_remove_add
        session_remove_commit)
qed

lemma student_new_value_error:
  assumes "http_method rq = ''POST''" and "form_int py_int rq ''age'' ''0'' 0 = None"
  shows "student_new py_int uid rq st = (Inl ValueError, st)"
  using assms by (simp add: student_new_def Let_def)

lemma student_edit_value_error:
  assumes "http_method rq = ''POST''" and "form_int py_int rq ''age'' ''0'' 0 = None"
    and "get_or_404 s_id (students (db st)) sid = Inr (Some s)"
  shows "student_edit py_int rq sid st = (Inl ValueError, st)"
  using assms
  by (simp add: student_edit_def Let_def store_new_session session_remove_add)

text \<open>
  Claim C2, as amended. On a POST whose age field is absent, empty or converts to an
  integer \<open>a\<close> (absent and empty give 0), Student Create and Student Update reject exactly
  when the submitted full name is blank or \<open>a\<close> is outside 6 to 12: the rejection
  redirects to the same form with the error message and leaves the database as it was;
  otherwise Create appends the new row and Update replaces the row with that id. The
  ages 6 and 12 are accepted, 5 and 13 are rejected. An age field that \<open>int\<close> cannot
  convert raises ValueError at line 163 or 182, before the check: nothing is created
  or saved, and the form is not shown again, whether or not the name is blank (the
  counterexample below).
\<close>

theorem student_form_validation:
  assumes "http_method rq = ''POST''"
  shows "(form_int py_int rq ''age'' ''0'' 0 = Some a \<longrightarrow>
          student_new py_int uid rq st =
           (if blank (form_get rq ''full_name'' '''') \<or> a < 6 \<or> 12 < a
            then (Inr (Redirect ''student_new'' None), flash Msg_name_and_age_6_12 ''danger'' st)
            else (Inr (Redirect ''students'' None),
                  flash Msg_student_saved ''success''
                    (st\<lparr>db := (db st)\<lparr>students := students (db st) @
                       [\<lparr>s_id = next_id (map s_id (students (db st))),
                         full_name = strip (form_get rq ''full_name'' ''''), age = a,
                         gender = form_get rq ''gender'' '''',
                         s_notes = form_get rq ''notes'' '''',
                         s_created_by = Some uid\<rparr>]\<rparr>\<rparr>)))
         \<and> (get_or_404 s_id (students (db st)) sid = Inr (Some s) \<longrightarrow>
              student_edit py_int rq sid st =
                (if blank (form_get rq ''full_name'' '''') \<or> a < 6 \<or> 12 < a
                 then (Inr (Redirect ''student_edit'' (Some sid)),
                       flash Msg_name_and_age_6_12 ''danger'' st)
                 else (Inr (Redirect ''students'' None),
                       flash Msg_student_edited ''success''
                         (st\<lparr>db := (db st)\<lparr>students :=
                            map (\<lambda>r. if s_id r = sid
                                     then s\<lparr>full_name := strip (form_get rq ''full_name'' ''''),
                                            age := a, gender := form_get rq ''gender'' '''',
                                            s_notes := form_get rq ''notes'' ''''\<rparr>
                                     else r)
                              (students (db st))\<rparr>\<rparr>)))))
       \<and> (form_int py_int rq ''age'' ''0'' 0 = None \<longrightarrow>
            student_new py_int uid rq st = (Inl ValueError, st)
            \<and> (get_or_404 s_id (students (db st)) sid = Inr (Some s) \<longrightarrow>
                 student_edit py_int rq sid st = (Inl ValueError, st)))"
  using student_new_post [OF assms] student_edit_post [OF assms]
    student_new_value_error [OF assms] student_edit_value_error [OF assms]
  by simp

lemma student_rq_fields:
  "http_method (student_rq nm a) = ''POST''"
  "form_get (student_rq nm a) ''full_name'' '''' = nm"
  "form_get (student_rq nm a) ''age'' ''0'' = a"
  "form_get (student_rq nm a) ''gender'' '''' = ''M''"
  "form_get (student_rq nm a) ''notes'' '''' = []"
  by (simp_all add: student_rq_def http_method_post form_get_post)

lemma student_rq_age:
  "a \<noteq> [] \<Longrightarrow> form_int int_of_digits (student_rq nm a) ''age'' ''0'' 0 = int_of_digits a"
  by (simp add: form_int_def student_rq_fields)

lemma get_ann: "get_or_404 s_id (students (db ex_app)) 7 = Inr (Some ann)"
  by (simp add: get_or_404_bound ex_app_def ex_db_def ann_def)

lemma get_nobody: "get_or_404 s_id (students (db ex_app)) 8 = Inr None"
  by (simp add: get_or_404_bound ex_app_def ex_db_def ann_def)

theorem student_form_validation_witness:
  "fst (student_new int_of_digits 1 (student_rq ''Bob'' ''5'') ex_app) = Inr (Redirect ''student_new'' None)
   \<and> db (snd (student_new int_of_digits 1 (student_rq ''Bob'' ''5'') ex_app)) = db ex_app
   \<and> fst (student_new int_of_digits 1 (student_rq ''Bob'' ''6'') ex_app) = Inr (Redirect ''students'' None)
   \<and> map full_name (students (db (snd (student_new int_of_digits 1 (student_rq ''Bob'' ''6'') ex_app))))
       = [''Ann'', ''Bob'']
   \<and> fst (student_new int_of_digits 1 (student_rq ''Bob'' ''12'') ex_app) = Inr (Redirect ''students'' None)
   \<and> fst (student_new int_of_digits 1 (student_rq ''Bob'' ''13'') ex_app) = Inr (Redirect ''student_new'' None)
   \<and> fst (student_new int_of_digits 1 (student_rq '' '' ''9'') ex_app) = Inr (Redirect ''student_new'' None)
   \<and> fst (student_edit int_of_digits (student_rq ''Bob'' ''5'') 7 ex_app) = Inr (Redirect ''student_edit'' (Some 7))
   \<and> fst (student_edit int_of_digits (student_rq ''Bob'' ''6'') 7 ex_app) = Inr (Redirect ''students'' None)
   \<and> map age (students (db (snd (student_edit int_of_digits (student_rq ''Bob'' ''12'') 7 ex_app)))) = [12]
   \<and> fst (student_edit int_of_digits (student_rq ''Bob'' ''13'') 7 ex_app) = Inr (Redirect ''student_edit'' (Some 7))"
proof -
  have a: "form_int int_of_digits (student_rq nm ''5'') ''age'' ''0'' 0 = Some 5"
    "form_int int_of_digits (student_rq nm ''6'') ''age'' ''0'' 0 = Some 6"
    "form_int int_of_digits (student_rq nm ''9'') ''age'' ''0'' 0 = Some 9"
    "form_int int_of_digits (student_rq nm ''12'') ''age'' ''0'' 0 = Some 12"
    "form_int int_of_digits (student_rq nm ''13'') ''age'' ''0'' 0 = Some 13" for nm
    by (simp_all add: student_rq_age int_of_digits_ex)
  note v5 = student_form_validation [where py_int = int_of_digits and uid = 1 and st = ex_app
      and sid = 7 and s = ann and rq = "student_rq ''Bob'' ''5''" and a = 5,
      OF student_rq_fields(1), THEN conjunct1, THEN mp, OF a(1)]
  note v6 = student_form_validation [where py_int = int_of_digits and uid = 1 and st = ex_app
      and sid = 7 and s = ann and rq = "student_rq ''Bob'' ''6''" and a = 6,
      OF student_rq_fields(1), THEN conjunct1, THEN mp, OF a(2)]
  note v12 = student_form_validation [where py_int = int_of_digits and uid = 1 and st = ex_app
      and sid = 7 and s = ann and rq = "student_rq ''Bob'' ''12''" and a = 12,
      OF student_rq_fields(1), THEN conjunct1, THEN mp, OF a(4)]
  note v13 = student_form_validation [where py_int = int_of_digits and uid = 1 and st = ex_app
      and sid = 7 and s = ann and rq = "student_rq ''Bob'' ''13''" and a = 13,
      OF student_rq_fields(1), THEN conjunct1, THEN mp, OF a(5)]
  note v9 = student_form_validation [where py_int = int_of_digits and uid = 1 and st = ex_app
      and sid = 7 and s = ann and rq = "student_rq '' '' ''9''" and a = 9,
      OF student_rq_fields(1), THEN conjunct1, THEN mp, OF a(3)]
  have n: "students (db ex_app) = [ann]" "s_id ann = 7" "full_name ann = ''Ann''"
    by (simp_all add: ex_app_def ex_db_def ann_def)
  have c: "fst (student_new int_of_digits 1 (student_rq ''Bob'' ''5'') ex_app)
             = Inr (Redirect ''student_new'' None)
           \<and> db (snd (student_new int_of_digits 1 (student_rq ''Bob'' ''5'') ex_app)) = db ex_app"
    using v5 [THEN conjunct1] by (simp add: flash_db)
  have c6: "fst (student_new int_of_digits 1 (student_rq ''Bob'' ''6'') ex_app)
              = Inr (Redirect ''students'' None)
           \<and> map full_name
                (students (db (snd (student_new int_of_digits 1 (student_rq ''Bob'' ''6'') ex_app))))
               = [''Ann'', ''Bob'']"
    using v6 [THEN conjunct1] by (simp add: student_rq_fields blank_def strip_ex flash_db n)
  have c12: "fst (student_new int_of_digits 1 (student_rq ''Bob'' ''12'') ex_app)
               = Inr (Redirect ''students'' None)"
    using v12 [THEN conjunct1] by (simp add: student_rq_fields blank_def strip_ex)
  have c13: "fst (student_new int_of_digits 1 (student_rq ''Bob'' ''13'') ex_app)
               = Inr (Redirect ''student_new'' None)"
    using v13 [THEN conjunct1] by simp
  have c9: "fst (student_new int_of_digits 1 (student_rq '' '' ''9'') ex_app)
              = Inr (Redirect ''student_new'' None)"
    using v9 [THEN conjunct1] by (simp add: student_rq_fields blank_def strip_ex)
  have e5: "fst (student_edit int_of_digits (student_rq ''Bob'' ''5'') 7 ex_app)
              = Inr (Redirect ''student_edit'' (Some 7))"
    using v5 [THEN conjunct2, THEN mp, OF get_ann] by simp
  have e6: "fst (student_edit int_of_digits (student_rq ''Bob'' ''6'') 7 ex_app)
              = Inr (Redirect ''students'' None)"
    using v6 [THEN conjunct2, THEN mp, OF get_ann]
    by (simp add: student_rq_fields blank_def strip_ex)
  have e12: "map age
               (students (db (snd (student_edit int_of_digits (student_rq ''Bob'' ''12'') 7 ex_app))))
              = [12]"
    using v12 [THEN conjunct2, THEN mp, OF get_ann]
    by (simp add: student_rq_fields blank_def strip_ex flash_db n)
  have e13: "fst (student_edit int_of_digits (student_rq ''Bob'' ''13'') 7 ex_app)
               = Inr (Redirect ''student_edit'' (Some 7))"
    using v13 [THEN conjunct2, THEN mp, OF get_ann] by simp
  from c c6 c12 c13 c9 e5 e6 e12 e13 show ?thesis by simp
qed

theorem student_new_value_error_counterexample:
  "blank (form_get (student_rq '' '' ''abc'') ''full_name'' '''')
   \<and> student_new int_of_digits 1 (student_rq '' '' ''abc'') ex_app = (Inl ValueError, ex_app)
   \<and> student_edit int_of_digits (student_rq '' '' ''abc'') 7 ex_app = (Inl ValueError, ex_app)"
proof -
  have a: "form_int int_of_digits (student_rq '' '' ''abc'') ''age'' ''0'' 0 = None"
    by (simp add: student_rq_age int_of_digits_def is_digit_def)
  show ?thesis
    by (simp add: student_new_value_error [OF student_rq_fields(1) a]
        student_edit_value_error [OF student_rq_fields(1) a get_ann]
        student_rq_fields blank_def strip_ex)
qed

text \<open>
  Claim C8. Student Update is atomic on validation failure: the four assignments of
  lines 181 to 184 reach only the object in the session, the failing branch returns
  without a commit, and when the request ends the committed row still has every prior
  field value.
\<close>

theorem student_edit_atomic:
  assumes "http_method rq = ''POST''"
    and "get_or_404 s_id (students (db st)) sid = Inr (Some s)"
    and "form_int py_int rq ''age'' ''0'' 0 = Some a"
    and "blank (form_get rq ''full_name'' '''') \<or> a < 6 \<or> 12 < a"
  shows "db (snd (student_edit py_int rq sid st)) = db st
         \<and> get_or_404 s_id (students (db (snd (student_edit py_int rq sid st)))) sid
             = Inr (Some s)
         \<and> fst (student_edit py_int rq sid st) = Inr (Redirect ''student_edit'' (Some sid))"
  using assms student_edit_post [OF assms(1) assms(3) assms(2)]
  by (simp add: flash_db)

theorem student_edit_atomic_witness:
  "http_method (student_rq '' '' ''13'') = ''POST''
   \<and> get_or_404 s_id (students (db ex_app)) 7 = Inr (Some ann)
   \<and> form_int int_of_digits (student_rq '' '' ''13'') ''age'' ''0'' 0 = Some 13
   \<and> db (snd (student_edit int_of_digits (student_rq '' '' ''13'') 7 ex_app)) = db ex_app
   \<and> get_or_404 s_id
        (students (db (snd (student_edit int_of_digits (student_rq '' '' ''13'') 7 ex_app)))) 7
       = Inr (Some ann)"
proof -
  have a: "form_int int_of_digits (student_rq '' '' ''13'') ''age'' ''0'' 0 = Some 13"
    by (simp add: student_rq_age int_of_digits_ex)
  have b: "blank (form_get (student_rq '' '' ''13'') ''full_name'' '''') \<or> (13::int) < 6 \<or> (12::int) < 13"
    by simp
  show ?thesis
    using student_edit_atomic [OF student_rq_fields(1) get_ann a b] a
    by (simp add: student_rq_fields(1) get_ann)
qed

lemma student_delete_found:
  assumes "get_or_404 s_id (students (db st)) sid = Inr (Some s)"
  shows "student_delete sid st =
           (Inr (Redirect ''students'' None),
            flash Msg_student_deleted ''info''
              (st\<lparr>db := (db st)\<lparr>students := filter (\<lambda>r. s_id r \<noteq> sid) (students (db st))\<rparr>\<rparr>))"
proof -
  from get_or_404_key [OF assms] have "s_id s = sid" by simp
  with assms show ?thesis
    by (simp add: student_delete_def Let_def store_new_session session_remove_commit)
qed

lemma student_delete_missing:
  assumes "get_or_404 s_id (students (db st)) sid = Inr None"
  shows "student_delete sid st = (Inr Abort404, st)"
  using assms by (simp add: student_delete_def Let_def store_new_session)

lemma student_delete_overflow:
  assumes "2 ^ 63 \<le> sid"
  shows "student_delete sid st = (Inl OverflowError, st)"
  by (simp add: student_delete_def Let_def store_new_session get_or_404_overflow [OF assms])

text \<open>
  Claim C6, as amended. For an id below \<open>2 ^ 63\<close> that no student has, Student Delete
  answers 404 and changes nothing. When the student exists, the student table afterwards
  is the old one without the rows of that id (with unique ids: without exactly that
  row), so detail and edit on the id answer 404; the behavior logs, the activity logs,
  the users and the activities are unchanged, also the log rows that reference the
  deleted student. For an id from \<open>2 ^ 63\<close> on, which the URL admits and no student can
  have, the lookup of line 196 raises OverflowError and nothing changes (the
  counterexample below).
\<close>

theorem student_delete_effect:
  "(sid < 2 ^ 63 \<and> sid \<notin> s_id ` set (students (db st)) \<longrightarrow>
      get_or_404 s_id (students (db st)) sid = Inr None
      \<and> student_delete sid st = (Inr Abort404, st))
   \<and> (2 ^ 63 \<le> sid \<longrightarrow> student_delete sid st = (Inl OverflowError, st))
   \<and> (get_or_404 s_id (students (db st)) sid = Inr (Some s) \<longrightarrow>
        fst (student_delete sid st) = Inr (Redirect ''students'' None)
        \<and> students (db (snd (student_delete sid st)))
            = filter (\<lambda>r. s_id r \<noteq> sid) (students (db st))
        \<and> (distinct (map s_id (students (db st))) \<longrightarrow>
             students (db (snd (student_delete sid st))) = remove1 s (students (db st)))
        \<and> behavior_logs (db (snd (student_delete sid st))) = behavior_logs (db st)
        \<and> activity_logs (db (snd (student_delete sid st))) = activity_logs (db st)
        \<and> users (db (snd (student_delete sid st))) = users (db st)
        \<and> activities (db (snd (student_delete sid st))) = activities (db st)
        \<and> fst (student_detail sid (snd (student_delete sid st))) = Inr Abort404
        \<and> fst (student_edit py_int rq sid (snd (student_delete sid st))) = Inr Abort404)"
proof (intro conjI impI)
  assume "sid < 2 ^ 63 \<and> sid \<notin> s_id ` set (students (db st))"
  then show g: "get_or_404 s_id (students (db st)) sid = Inr None"
    by (simp add: get_or_404_None)
  then show "student_delete sid st = (Inr Abort404, st)" by (rule student_delete_missing)
next
  assume "2 ^ 63 \<le> sid"
  then show "student_delete sid st = (Inl OverflowError, st)" by (rule student_delete_overflow)
next
  assume f: "get_or_404 s_id (students (db st)) sid = Inr (Some s)"
  note d = student_delete_found [OF f]
  from get_or_404_key [OF f] have b: "sid < 2 ^ 63" by simp
  show "fst (student_delete sid st) = Inr (Redirect ''students'' None)" by (simp add: d)
  show s: "students (db (snd (student_delete sid st)))
            = filter (\<lambda>r. s_id r \<noteq> sid) (students (db st))"
    by (simp add: d flash_db)
  show "behavior_logs (db (snd (student_delete sid st))) = behavior_logs (db st)"
    by (simp add: d flash_db)
  show "activity_logs (db (snd (student_delete sid st))) = activity_logs (db st)"
    by (simp add: d flash_db)
  show "users (db (snd (student_delete sid st))) = users (db st)"
    by (simp add: d flash_db)
  show "activities (db (snd (student_delete sid st))) = activities (db st)"
    by (simp add: d flash_db)
  have g: "get_or_404 s_id (students (db (snd (student_delete sid st)))) sid = Inr None"
    by (simp only: s get_or_404_filter [OF b])
  show "fst (student_detail sid (snd (student_delete sid st))) = Inr Abort404"
    by (simp add: student_detail_def g)
  show "fst (student_edit py_int rq sid (snd (student_delete sid st))) = Inr Abort404"
    by (simp add: student_edit_def Let_def store_new_session g)
  assume "distinct (map s_id (students (db st)))"
  from filter_remove1 [OF this f]
  show "students (db (snd (student_delete sid st))) = remove1 s (students (db st))"
    by (simp add: s)
qed

theorem student_delete_effect_witness:
  "(8::nat) < 2 ^ 63 \<and> 8 \<notin> s_id ` set (students (db ex_app))
   \<and> student_delete 8 ex_app = (Inr Abort404, ex_app)
   \<and> student_delete (2 ^ 63) ex_app = (Inl OverflowError, ex_app)
   \<and> get_or_404 s_id (students (db ex_app)) 7 = Inr (Some ann)
   \<and> distinct (map s_id (students (db ex_app)))
   \<and> students (db (snd (student_delete 7 ex_app))) = []
   \<and> behavior_logs (db (snd (student_delete 7 ex_app))) = ex_logs
   \<and> map al_student_id (activity_logs (db (snd (student_delete 7 ex_app)))) = [7]
   \<and> fst (student_detail 7 (snd (student_delete 7 ex_app))) = Inr Abort404
   \<and> fst (student_edit int_of_digits (student_rq ''Bob'' ''9'') 7 (snd (student_delete 7 ex_app)))
       = Inr Abort404"
proof -
  have n: "students (db ex_app) = [ann]" "behavior_logs (db ex_app) = ex_logs"
    "map al_student_id (activity_logs (db ex_app)) = [7]" "s_id ann = 7"
    by (simp_all add: ex_app_def ex_db_def ann_def)
  have dist: "distinct (map s_id (students (db ex_app)))" by (simp add: n)
  have no8: "(8::nat) < 2 ^ 63 \<and> 8 \<notin> s_id ` set (students (db ex_app))" by (simp add: n)
  note t8 = student_delete_effect [of 8 ex_app ann int_of_digits "student_rq ''Bob'' ''9''",
      THEN conjunct1, THEN mp, OF no8]
  have big: "(2::nat) ^ 63 \<le> 2 ^ 63" by simp
  note tb = student_delete_effect [of "2 ^ 63" ex_app ann int_of_digits
      "student_rq ''Bob'' ''9''", THEN conjunct2, THEN conjunct1, THEN mp, OF big]
  note t7 = student_delete_effect [of 7 ex_app ann int_of_digits "student_rq ''Bob'' ''9''",
      THEN conjunct2, THEN conjunct2, THEN mp, OF get_ann]
  from t7 dist have "students (db (snd (student_delete 7 ex_app))) = []"
    by (simp add: n)
  with t7 t8 tb dist get_ann no8 show ?thesis by (simp add: n(2,3))
qed

theorem student_delete_overflow_counterexample:
  "map s_id (students (db ex_app)) = [7]
   \<and> student_delete 9223372036854775808 ex_app = (Inl OverflowError, ex_app)"
  by (simp add: student_delete_overflow) (simp add: ex_app_def ex_db_def ann_def)

section \<open>Claims about activities, login and registration\<close>

lemma activity_rq_fields:
  "http_method (activity_rq t) = ''POST''"
  "form_get (activity_rq t) ''title'' '''' = t"
  "form_get (activity_rq t) ''description'' '''' = ''logic''"
  "form_get (activity_rq t) ''category'' '''' = ''STEM''"
  "form_int int_of_digits (activity_rq t) ''age_min'' ''6'' 6 = Some 6"
  "form_int int_of_digits (activity_rq t) ''age_max'' ''12'' 12 = Some 9"
  by (simp_all add: activity_rq_def http_method_post form_get_post form_int_def int_of_digits_ex)

lemma get_blocks: "get_or_404 a_id (activities (db ex_app)) 1 = Inr (Some blocks)"
  by (simp add: get_or_404_bound ex_app_def ex_db_def blocks_def)

text \<open>
  Claim C7. Activity Update should reject a blank title as Activity Create does. The code
  does not: \<open>activity_edit\<close> has no validation between its assignments and its commit.
  On the same form with a title of one space, Create redirects back with the error and
  writes nothing, while Update stores the empty title over \<open>Blocks\<close>, flashes success and
  redirects to the list.
\<close>

theorem activity_edit_accepts_blank_title:
  "activity_new int_of_digits 1 (activity_rq '' '') ex_app =
     (Inr (Redirect ''activity_new'' None), flash Msg_activity_title ''danger'' ex_app)
   \<and> activity_edit int_of_digits (activity_rq '' '') 1 ex_app =
     (Inr (Redirect ''activities'' None),
      flash Msg_activity_edited ''success''
        (ex_app\<lparr>db := ex_db\<lparr>activities := [blocks\<lparr>title := []\<rparr>]\<rparr>\<rparr>))
   \<and> title blocks = ''Blocks''"
proof (intro conjI)
  show "activity_new int_of_digits 1 (activity_rq '' '') ex_app =
     (Inr (Redirect ''activity_new'' None), flash Msg_activity_title ''danger'' ex_app)"
    by (simp add: activity_new_def Let_def activity_rq_fields strip_ex)
  have b: "activities ex_db = [blocks]" "db ex_app = ex_db" "a_id blocks = 1"
    "blocks\<lparr>title := [], description := ''logic'', category := ''STEM'', age_min := 6,
             age_max := 9\<rparr> = blocks\<lparr>title := []\<rparr>"
    by (simp_all add: ex_app_def ex_db_def blocks_def)
  show "activity_edit int_of_digits (activity_rq '' '') 1 ex_app =
     (Inr (Redirect ''activities'' None),
      flash Msg_activity_edited ''success''
        (ex_app\<lparr>db := ex_db\<lparr>activities := [blocks\<lparr>title := []\<rparr>]\<rparr>\<rparr>))"
    using get_blocks
    by (simp add: activity_edit_def Let_def store_new_session session_remove_commit
        activity_rq_fields strip_ex b)
  show "title blocks = ''Blocks''" by (simp add: blocks_def)
qed

lemma login_failure:
  assumes "http_method rq = ''POST''"
    and "\<not> (case find (\<lambda>u. u_email u = lower (strip (form_get rq ''email'' ''''))) (users (db st))
            of None \<Rightarrow> False
             | Some usr \<Rightarrow> check (password_hash usr) (form_get rq ''password'' ''''))"
  shows "login check rq st = (Render ''login.html'', flash Msg_invalid_credentials ''danger'' st)"
  using assms by (simp add: login_def Let_def)

text \<open>
  Claim C4. A login attempt with an unknown email and one with a known email and a
  password that fails the hash check produce the same response and the same flashed
  message, so the two causes cannot be told apart; neither changes the login session
  or the database.
\<close>

theorem login_failure_generic:
  assumes "http_method rq = ''POST''" and "http_method rq' = ''POST''"
    and "find (\<lambda>u. u_email u = lower (strip (form_get rq ''email'' ''''))) (users (db st)) = None"
    and "find (\<lambda>u. u_email u = lower (strip (form_get rq' ''email'' ''''))) (users (db st))
           = Some usr"
    and "\<not> check (password_hash usr) (form_get rq' ''password'' '''')"
  shows "login check rq st = (Render ''login.html'', flash Msg_invalid_credentials ''danger'' st)
         \<and> login check rq' st = login check rq st
         \<and> logged_in (snd (login check rq st)) = logged_in st
         \<and> logged_in (snd (login check rq' st)) = logged_in st
         \<and> db (snd (login check rq' st)) = db st"
proof -
  have a: "login check rq st = (Render ''login.html'', flash Msg_invalid_credentials ''danger'' st)"
    using assms(1,3) by (simp add: login_failure)
  have b: "login check rq' st = (Render ''login.html'', flash Msg_invalid_credentials ''danger'' st)"
    using assms(2,4,5) by (simp add: login_failure)
  show ?thesis by (simp add: a b flash_logged_in flash_db)
qed

lemma login_rq_fields:
  "http_method (login_rq em pw) = ''POST''"
  "form_get (login_rq em pw) ''email'' '''' = em"
  "form_get (login_rq em pw) ''password'' '''' = pw"
  by (simp_all add: login_rq_def http_method_post form_get_post)

theorem login_failure_generic_witness:
  "login ex_check (login_rq ''nobody@kidanta.local'' ''admin123'') ex_app
     = (Render ''login.html'', flash Msg_invalid_credentials ''danger'' ex_app)
   \<and> login ex_check (login_rq '' Admin@Kidanta.Local '' ''guess'') ex_app
     = login ex_check (login_rq ''nobody@kidanta.local'' ''admin123'') ex_app
   \<and> logged_in (snd (login ex_check (login_rq '' Admin@Kidanta.Local '' ''guess'') ex_app)) = None
   \<and> fst (login ex_check (login_rq '' Admin@Kidanta.Local '' ''admin123'') ex_app)
     = Redirect ''dashboard'' None"
proof -
  have u: "users (db ex_app) = [admin]" "u_email admin = ''admin@kidanta.local''"
    "password_hash admin = ''h:admin123''" "logged_in ex_app = None"
    by (simp_all add: ex_app_def ex_db_def admin_def)
  have f1: "find (\<lambda>u. u_email u
              = lower (strip (form_get (login_rq ''nobody@kidanta.local'' ''admin123'') ''email'' '''')))
             (users (db ex_app)) = None"
    by (simp add: login_rq_fields strip_ex lower_ex u)
  have f2: "find (\<lambda>u. u_email u
              = lower (strip (form_get (login_rq '' Admin@Kidanta.Local '' ''guess'') ''email'' '''')))
             (users (db ex_app)) = Some admin"
    by (simp add: login_rq_fields strip_ex lower_ex u)
  have w: "\<not> ex_check (password_hash admin)
              (form_get (login_rq '' Admin@Kidanta.Local '' ''guess'') ''password'' '''')"
    by (simp add: login_rq_fields ex_check_def u)
  have ok: "fst (login ex_check (login_rq '' Admin@Kidanta.Local '' ''admin123'') ex_app)
     = Redirect ''dashboard'' None"
    by (simp add: login_def Let_def login_rq_fields strip_ex lower_ex u ex_check_def)
  show ?thesis
    using login_failure_generic [where check = ex_check and st = ex_app and usr = admin
        and rq = "login_rq ''nobody@kidanta.local'' ''admin123''"
        and rq' = "login_rq '' Admin@Kidanta.Local '' ''guess''",
        OF login_rq_fields(1) login_rq_fields(1) f1 f2 w] ok
    by (simp add: u flash_logged_in)
qed














end
